theory Spec2Isabelle
  imports Main "HOL-Library.Multiset"
begin

section \<open>JavaScript values used by the backend\<close>

text \<open>
  A JavaScript string is modelled as a \<^typ>\<open>string\<close> whose characters are read as code
  units in the range U+0000 .. U+00FF. A property that may be absent (\<open>undefined\<close>) is a
  \<^typ>\<open>'a option\<close>. Numbers are exact integers; \<open>NaN\<close> is \<open>None\<close>. (JavaScript numbers are
  doubles, exact for integers of magnitude below \<open>2 ^ 53\<close>.)
\<close>

definition truthy :: "string option \<Rightarrow> bool" where
  "truthy x = (case x of None \<Rightarrow> False | Some s \<Rightarrow> s \<noteq> [])"

text \<open>\<open>a || b\<close> on possibly absent strings.\<close>

definition js_or :: "string option \<Rightarrow> string option \<Rightarrow> string option" where
  "js_or a b = (if truthy a then a else b)"

text \<open>\<open>a || dflt\<close> where \<open>dflt\<close> is a string literal.\<close>

definition opt_or :: "string option \<Rightarrow> string \<Rightarrow> string" where
  "opt_or a dflt = (case a of None \<Rightarrow> dflt | Some s \<Rightarrow> if s \<noteq> [] then s else dflt)"

text \<open>\<open>s || dflt\<close> where \<open>s\<close> is a string and \<open>dflt\<close> a string literal.\<close>

definition str_or :: "string \<Rightarrow> string \<Rightarrow> string" where
  "str_or s dflt = (if s \<noteq> [] then s else dflt)"

text \<open>
  White space and line terminators of ECMAScript among the code units below 256:
  TAB, LF, VT, FF, CR, SPACE and NO-BREAK SPACE.
\<close>

definition isWhiteSpace :: "char \<Rightarrow> bool" where
  "isWhiteSpace c = (of_char c \<in> {9, 10, 11, 12, 13, 32, 160 :: nat})"

definition trim :: "string \<Rightarrow> string" where
  "trim s = rev (dropWhile isWhiteSpace (rev (dropWhile isWhiteSpace s)))"

text \<open>The value of a digit in the given radix (10 or 16), if the character is one.\<close>

definition digitVal :: "nat \<Rightarrow> char \<Rightarrow> nat option" where
  "digitVal radix c =
     (let n = (of_char c :: nat);
          v = (if 48 \<le> n \<and> n \<le> 57 then Some (n - 48)
               else if 97 \<le> n \<and> n \<le> 102 then Some (n - 87)
               else if 65 \<le> n \<and> n \<le> 70 then Some (n - 55)
               else None)
      in case v of None \<Rightarrow> None | Some d \<Rightarrow> if d < radix then Some d else None)"

definition isDigit :: "nat \<Rightarrow> char \<Rightarrow> bool" where
  "isDigit radix c = (digitVal radix c \<noteq> None)"

definition digitsVal :: "nat \<Rightarrow> string \<Rightarrow> nat" where
  "digitsVal radix z =
     foldl (\<lambda>a c. a * radix + (case digitVal radix c of None \<Rightarrow> 0 | Some d \<Rightarrow> d)) 0 z"

text \<open>
  \<open>parseInt(x)\<close> with no radix argument: leading white space is skipped, a sign is read,
  a \<open>0x\<close>/\<open>0X\<close> prefix selects radix 16, and the longest prefix of digits is converted;
  no digit at all gives \<open>NaN\<close>. \<open>parseInt(undefined)\<close> parses the text \<open>undefined\<close>,
  which is \<open>NaN\<close>. The result is the exact integer that the digits denote; JavaScript
  returns the nearest double, which is that integer as long as its magnitude is below
  \<open>2 ^ 53\<close>. What is proved about the value of a parsed number, or of a product with
  it, carries this bound.
\<close>

definition parseInt :: "string option \<Rightarrow> int option" where
  "parseInt x =
     (case x of
        None \<Rightarrow> None
      | Some str \<Rightarrow>
          (let s = dropWhile isWhiteSpace str;
               neg = (take 1 s = ''-'');
               s1 = (if take 1 s = ''-'' \<or> take 1 s = ''+'' then drop 1 s else s);
               hex = (take 2 s1 = ''0x'' \<or> take 2 s1 = ''0X'');
               radix = (if hex then 16 else 10);
               s2 = (if hex then drop 2 s1 else s1);
               z = takeWhile (isDigit radix) s2
           in if z = [] then None
              else Some ((if neg then - 1 else 1) * int (digitsVal radix z))))"

text \<open>The decimal text of a non-negative integer, as string concatenation produces it.\<close>

fun decimal :: "nat \<Rightarrow> string" where
  "decimal n =
     (if n < 10 then [char_of (48 + n)]
      else decimal (n div 10) @ [char_of (48 + n mod 10)])"

declare decimal.simps [simp del]

section \<open>The message schema (models/Message.js)\<close>

text \<open>
  A stored document of the collection. The schema's field \<open>text\<close> is called
  \<open>msgText\<close> here; \<open>createdAt\<close> and \<open>updatedAt\<close> are the audit timestamps that the
  schema option \<open>timestamps: true\<close> adds.
\<close>

record message =
  messageId :: string
  wa_id :: string
  msgText :: string
  messageType :: string
  fromNumber :: string
  toNumber :: string
  contactName :: string
  timestamp :: int
  isOutgoing :: bool
  status :: string
  createdAt :: nat
  updatedAt :: nat

text \<open>
  The plain object handed to \<open>new Message(...)\<close>, before the schema has cast and
  validated it: the required paths may still be \<open>null\<close>/\<open>undefined\<close>, the timestamp
  may be \<open>NaN\<close>.
\<close>

record messageData =
  d_messageId :: "string option"
  d_wa_id :: "string option"
  d_text :: string
  d_messageType :: string
  d_fromNumber :: "string option"
  d_toNumber :: "string option"
  d_contactName :: string
  d_timestamp :: "int option"
  d_isOutgoing :: bool
  d_status :: string

definition messageTypeEnum :: "string list" where
  "messageTypeEnum = [''text'', ''image'', ''audio'', ''video'', ''document'']"

definition statusEnum :: "string list" where
  "statusEnum = [''sent'', ''delivered'', ''read'', ''failed'', ''received'']"

text \<open>
  Validation of a new document against the schema: a \<open>required\<close> String path must hold a
  non-empty string, the \<open>required\<close> Number path must hold a number (casting \<open>NaN\<close> to
  Number fails), and the \<open>enum\<close> paths must hold one of the listed values.
\<close>

definition validate :: "messageData \<Rightarrow> bool" where
  "validate d =
     (truthy (d_messageId d) \<and> truthy (d_wa_id d) \<and> truthy (d_fromNumber d) \<and>
      truthy (d_toNumber d) \<and> d_timestamp d \<noteq> None \<and>
      d_messageType d \<in> set messageTypeEnum \<and> d_status d \<in> set statusEnum)"

text \<open>The document that a valid object becomes when it is saved at time \<open>now\<close>.\<close>

definition castMessage :: "messageData \<Rightarrow> nat \<Rightarrow> message option" where
  "castMessage d now =
     (case (d_messageId d, d_wa_id d, d_fromNumber d, d_toNumber d, d_timestamp d) of
        (Some mid, Some w, Some f, Some t, Some ts) \<Rightarrow>
          if validate d then
            Some \<lparr>messageId = mid, wa_id = w, msgText = d_text d,
                  messageType = d_messageType d, fromNumber = f, toNumber = t,
                  contactName = d_contactName d, timestamp = ts,
                  isOutgoing = d_isOutgoing d, status = d_status d,
                  createdAt = now, updatedAt = now\<rparr>
          else None
      | _ \<Rightarrow> None)"

section \<open>The store and the clock\<close>

text \<open>
  The collection is the list of its documents in insertion order. The clock is the
  sequence of values that the coming reads of the system time will return
  (\<open>Date.now()\<close>, \<open>new Date()\<close> and the audit timestamps of a save).
\<close>

record world =
  docs :: "message list"
  clock :: "nat \<Rightarrow> nat"

definition readClock :: "world \<Rightarrow> nat \<times> world" where
  "readClock w = (clock w 0, w\<lparr>clock := (\<lambda>n. clock w (Suc n))\<rparr>)"

text \<open>\<open>Message.findOne(filter)\<close> without a sort: the first match in natural order.\<close>

definition findOne :: "(message \<Rightarrow> bool) \<Rightarrow> message list \<Rightarrow> message option" where
  "findOne p ds = find p ds"

text \<open>\<open>Message.updateOne(filter, update)\<close>: the first match is updated, if there is one.\<close>

fun updateOne :: "(message \<Rightarrow> bool) \<Rightarrow> (message \<Rightarrow> message) \<Rightarrow> message list \<Rightarrow> message list" where
  "updateOne p f [] = []"
| "updateOne p f (d # ds) = (if p d then f d # ds else d # updateOne p f ds)"

datatype save_error = ValidationError | DuplicateKey

text \<open>
  \<open>new Message(data).save()\<close>: the schema validates; the unique index on
  \<open>messageId\<close> rejects a second document with the same id (error code 11000);
  otherwise the document is inserted with both audit timestamps set to the current time.
\<close>

definition save :: "world \<Rightarrow> messageData \<Rightarrow> save_error + (world \<times> message)" where
  "save w d =
     (let (now, w1) = readClock w in
      case castMessage d now of
        None \<Rightarrow> Inl ValidationError
      | Some m \<Rightarrow>
          if messageId m \<in> set (map messageId (docs w)) then Inl DuplicateKey
          else Inr (w1\<lparr>docs := docs w @ [m]\<rparr>, m))"

section \<open>The webhook processor (processWebhooks.js)\<close>

text \<open>
  A webhook document has the shape
  \<open>{metaData: {entry: [{changes: [{value: {metadata: {display_phone_number},
  contacts: [{wa_id, profile: {name}}], messages: [{id, from, type, text: {body},
  timestamp}], statuses: [{id, meta_msg_id, status}]}}]}]}}\<close>.
  Every property may be absent, except the \<open>status\<close> of a status entry, which is
  taken to be there; the elements of the arrays are objects and the leaves are strings.
  \<open>c_profile_name\<close> is \<open>contact.profile?.name\<close>, \<open>m_text_body\<close> is
  \<open>message.text?.body\<close>, \<open>v_display_phone_number\<close> is
  \<open>value.metadata?.display_phone_number\<close> and \<open>metaData_entry\<close> is
  \<open>webhookData.metaData?.entry\<close>.
\<close>

record contact =
  c_wa_id :: "string option"
  c_profile_name :: "string option"

record wh_message =
  m_id :: "string option"
  m_from :: "string option"
  m_type :: "string option"
  m_text_body :: "string option"
  m_timestamp :: "string option"

record wh_status =
  s_id :: "string option"
  s_meta_msg_id :: "string option"
  s_status :: string

record wh_value =
  v_display_phone_number :: "string option"
  v_contacts :: "contact list option"
  v_messages :: "wh_message list option"
  v_statuses :: "wh_status list option"

record wh_change =
  ch_value :: "wh_value option"

record wh_entry =
  e_changes :: "wh_change list option"

record webhookData =
  metaData_entry :: "wh_entry list option"

text \<open>\<open>xs?.[0]\<close> on a possibly absent array.\<close>

definition first :: "'a list option \<Rightarrow> 'a option" where
  "first xs = (case xs of None \<Rightarrow> None | Some [] \<Rightarrow> None | Some (x # _) \<Rightarrow> Some x)"

text \<open>
  \<open>saveMessage\<close>: the lookup by \<open>messageId\<close> comes first; a found document means the
  message is skipped. Any error of the save is caught and reported as \<open>false\<close>. (An
  absent id finds no document here and then fails the validation of the save; whatever
  the lookup finds for it, the result is \<open>false\<close> and an unchanged store.)
\<close>

definition saveMessage :: "world \<Rightarrow> messageData \<Rightarrow> world \<times> bool" where
  "saveMessage w messageData =
     (case findOne (\<lambda>x. Some (messageId x) = d_messageId messageData) (docs w) of
        Some existingMessage \<Rightarrow> (w, False)
      | None \<Rightarrow>
          (case save w messageData of
             Inl error \<Rightarrow> (w, False)
           | Inr (w', newMessage) \<Rightarrow> (w', True)))"

text \<open>
  \<open>updateMessageStatus\<close>: the update sets \<open>status\<close> and \<open>updatedAt\<close> on the document
  found by \<open>messageId\<close>. Updates do not run the schema's validators. Nothing is returned
  and nothing is thrown; only the log differs when no document matched.
\<close>

definition updateMessageStatus :: "world \<Rightarrow> string \<Rightarrow> string \<Rightarrow> world" where
  "updateMessageStatus w mid st =
     (let (now, w1) = readClock w in
      w1\<lparr>docs := updateOne (\<lambda>x. messageId x = mid)
                    (\<lambda>x. x\<lparr>status := st, updatedAt := now\<rparr>) (docs w)\<rparr>)"

record webhookInfo =
  wi_value :: wh_value
  wi_businessNumber :: "string option"
  wi_messages :: "wh_message list option"
  wi_statuses :: "wh_status list option"

text \<open>\<open>env\<close> is \<open>process.env.BUSINESS_PHONE_NUMBER\<close>.\<close>

definition extractWebhookData :: "string option \<Rightarrow> webhookData \<Rightarrow> webhookInfo option" where
  "extractWebhookData env webhookData =
     (case first (metaData_entry webhookData) of
        None \<Rightarrow> None
      | Some entry \<Rightarrow>
          (case first (e_changes entry) of
             None \<Rightarrow> None
           | Some changes \<Rightarrow>
               (case ch_value changes of
                  None \<Rightarrow> None
                | Some v \<Rightarrow>
                    Some \<lparr>wi_value = v,
                          wi_businessNumber = js_or (v_display_phone_number v) env,
                          wi_messages = v_messages v,
                          wi_statuses = v_statuses v\<rparr>)))"

text \<open>
  \<open>getContactInfoFromWebhook\<close>: the contact whose \<open>wa_id\<close> is the sender, else the
  first contact; with no contacts the sender stands for itself.
\<close>

definition getContactInfoFromWebhook ::
    "string option \<Rightarrow> contact list option \<Rightarrow> string option \<times> string" where
  "getContactInfoFromWebhook sender contacts =
     (case contacts of
        None \<Rightarrow> (sender, ''Unknown'')
      | Some [] \<Rightarrow> (sender, ''Unknown'')
      | Some (c0 # cs) \<Rightarrow>
          (let contact = (case find (\<lambda>c. c_wa_id c = sender) (c0 # cs) of
                            Some c \<Rightarrow> c | None \<Rightarrow> c0)
           in (c_wa_id contact,
               opt_or (c_profile_name contact) ''Unknown'')))"

text \<open>
  \<open>createMessageFromWebhook\<close>. Its \<open>catch\<close> branch (returning \<open>null\<close>) is entered only
  when a property of \<open>null\<close>/\<open>undefined\<close> is read, which needs an array element that is
  not an object; on the documents typed above the function always returns the object.
\<close>

definition createMessageFromWebhook ::
    "wh_message \<Rightarrow> wh_value \<Rightarrow> string option \<Rightarrow> messageData" where
  "createMessageFromWebhook message v businessNumber =
     (let (isOut, name, waId, recipient) =
            (if truthy businessNumber \<and> m_from message = businessNumber then
               (True, ''You'', Some ''business'',
                (case v_contacts v of
                   Some (c0 # cs) \<Rightarrow> c_wa_id c0
                 | _ \<Rightarrow> None))
             else
               (let (cWaId, cName) = getContactInfoFromWebhook (m_from message) (v_contacts v)
                in (False, cName, cWaId, businessNumber)))
      in \<lparr>d_messageId = m_id message,
          d_wa_id = waId,
          d_text = opt_or (m_text_body message) [],
          d_messageType = opt_or (m_type message) ''text'',
          d_fromNumber = m_from message,
          d_toNumber = recipient,
          d_contactName = name,
          d_timestamp = map_option (\<lambda>n. n * 1000) (parseInt (m_timestamp message)),
          d_isOutgoing = isOut,
          d_status = (if isOut then ''sent'' else ''received'')\<rparr>)"

fun processMessages :: "world \<Rightarrow> wh_message list \<Rightarrow> wh_value \<Rightarrow> string option \<Rightarrow> world" where
  "processMessages w [] v businessNumber = w"
| "processMessages w (message # messages) v businessNumber =
     processMessages (fst (saveMessage w (createMessageFromWebhook message v businessNumber)))
       messages v businessNumber"

fun processStatusUpdates :: "world \<Rightarrow> wh_status list \<Rightarrow> world" where
  "processStatusUpdates w [] = w"
| "processStatusUpdates w (s # statuses) =
     (case js_or (s_id s) (s_meta_msg_id s) of
        Some mid \<Rightarrow>
          if mid \<noteq> [] then processStatusUpdates (updateMessageStatus w mid (s_status s)) statuses
          else processStatusUpdates w statuses
      | None \<Rightarrow> processStatusUpdates w statuses)"

text \<open>
  \<open>processWebhookFile\<close>, from the parsed document on: a document without the nested
  structure is skipped; the messages are processed before the status updates.
\<close>

definition processWebhookFile :: "string option \<Rightarrow> world \<Rightarrow> webhookData \<Rightarrow> world" where
  "processWebhookFile env w webhookData =
     (case extractWebhookData env webhookData of
        None \<Rightarrow> w
      | Some info \<Rightarrow>
          (let w1 = (case wi_messages info of
                       Some (m # ms) \<Rightarrow>
                         processMessages w (m # ms) (wi_value info) (wi_businessNumber info)
                     | _ \<Rightarrow> w)
           in case wi_statuses info of
                Some (s # ss) \<Rightarrow> processStatusUpdates w1 (s # ss)
              | _ \<Rightarrow> w1))"

section \<open>The message controller (controllers/messageController.js)\<close>

text \<open>
  The result of a request handler: the body sent with \<open>success: true\<close>, or the HTTP
  status and the \<open>error\<close> text sent with \<open>success: false\<close>. The store is taken to
  answer every query, so the handlers' 500 branches for a failing database are not
  modelled.
\<close>

datatype 'a response = Success 'a | Failure nat string

record conversationSummary =
  cs_wa_id :: string
  cs_phoneNumber :: string
  cs_contactName :: string
  cs_lastMessage :: string
  cs_lastMessageTime :: int
  cs_isLastOutgoing :: bool

text \<open>The filter \<open>{$or: [{wa_id: waId}, {toNumber: waId}]}\<close>.\<close>

definition inConversation :: "string \<Rightarrow> message \<Rightarrow> bool" where
  "inConversation waId d = (wa_id d = waId \<or> toNumber d = waId)"

text \<open>
  \<open>Message.distinct('wa_id', {isOutgoing: false})\<close>. The database fixes no order for
  the values; here they come in the order of their last occurrence.
\<close>

definition distinctSenderIds :: "message list \<Rightarrow> string list" where
  "distinctSenderIds ds = remdups (map wa_id (filter (\<lambda>d. \<not> isOutgoing d) ds))"

text \<open>
  \<open>find(filter).sort({timestamp: 1})\<close> and \<open>findOne(filter).sort({timestamp: -1})\<close>.
  The database fixes no order among documents with equal timestamps; here they keep
  their natural order (a stable sort).
\<close>

definition findSortedAsc :: "(message \<Rightarrow> bool) \<Rightarrow> message list \<Rightarrow> message list" where
  "findSortedAsc p ds = sort_key timestamp (filter p ds)"

definition findOneSortedDesc :: "(message \<Rightarrow> bool) \<Rightarrow> message list \<Rightarrow> message option" where
  "findOneSortedDesc p ds =
     (case sort_key (\<lambda>d. - timestamp d) (filter p ds) of [] \<Rightarrow> None | d # _ \<Rightarrow> Some d)"

definition buildConversationSummary :: "message list \<Rightarrow> string \<Rightarrow> conversationSummary option" where
  "buildConversationSummary ds waId =
     (let lastMessage = findOneSortedDesc (inConversation waId) ds;
          contactInfo = findOne (\<lambda>d. wa_id d = waId \<and> \<not> isOutgoing d) ds
      in case lastMessage of
           None \<Rightarrow> None
         | Some l \<Rightarrow>
             Some \<lparr>cs_wa_id = waId,
                   cs_phoneNumber =
                     (case contactInfo of None \<Rightarrow> waId | Some c \<Rightarrow> str_or (fromNumber c) waId),
                   cs_contactName =
                     (case contactInfo of None \<Rightarrow> ''Unknown''
                      | Some c \<Rightarrow> str_or (contactName c) ''Unknown''),
                   cs_lastMessage = str_or (msgText l) ''No message'',
                   cs_lastMessageTime = timestamp l,
                   cs_isLastOutgoing = isOutgoing l\<rparr>)"

text \<open>
  \<open>getConversations\<close>: a summary is pushed for every sender id unless it is \<open>null\<close>;
  \<open>Array.prototype.sort\<close> is stable and the comparator orders by descending
  \<open>lastMessageTime\<close>.
\<close>

definition getConversations :: "world \<Rightarrow> conversationSummary list response" where
  "getConversations w =
     (let senderIds = distinctSenderIds (docs w);
          conversations = List.map_filter (buildConversationSummary (docs w)) senderIds
      in Success (sort_key (\<lambda>c. - cs_lastMessageTime c) conversations))"

definition getMessages :: "world \<Rightarrow> string option \<Rightarrow> message list response" where
  "getMessages w waId =
     (case waId of
        None \<Rightarrow> Failure 400 ''wa_id is required''
      | Some i \<Rightarrow>
          if i = [] then Failure 400 ''wa_id is required''
          else Success (findSortedAsc (inConversation i) (docs w)))"

datatype validation = Valid | Invalid string

definition validateMessageInput :: "string option \<Rightarrow> string option \<Rightarrow> validation" where
  "validateMessageInput txt waId =
     (if \<not> truthy txt \<or> trim (opt_or txt []) = [] then Invalid ''Message text is required''
      else if \<not> truthy waId then Invalid ''wa_id is required''
      else Valid)"

definition getContactName :: "world \<Rightarrow> string \<Rightarrow> string option \<Rightarrow> string" where
  "getContactName w waId providedName =
     (case findOne (\<lambda>d. wa_id d = waId \<and> \<not> isOutgoing d) (docs w) of
        None \<Rightarrow> opt_or providedName ''Unknown''
      | Some existingMessage \<Rightarrow>
          str_or (contactName existingMessage) (opt_or providedName ''Unknown''))"

text \<open>
  \<open>createOutgoingMessage\<close> reads the time twice, for the id and for the timestamp;
  \<open>rnd\<close> is the value of \<open>Math.random().toString(36).substr(2, 9)\<close>. The parameter
  \<open>cName\<close> is not used by the source either.
\<close>

definition createOutgoingMessage ::
    "world \<Rightarrow> string \<Rightarrow> string \<Rightarrow> string \<Rightarrow> string \<Rightarrow> string \<Rightarrow> messageData \<times> world" where
  "createOutgoingMessage w rnd waId txt businessPhone cName =
     (let (t1, w1) = readClock w;
          (t2, w2) = readClock w1
      in (\<lparr>d_messageId = Some (''msg_'' @ decimal t1 @ ''_'' @ rnd),
           d_wa_id = Some ''business'',
           d_text = trim txt,
           d_messageType = ''text'',
           d_fromNumber = Some businessPhone,
           d_toNumber = Some waId,
           d_contactName = ''You'',
           d_timestamp = Some (int t2),
           d_isOutgoing = True,
           d_status = ''sent''\<rparr>, w2))"

text \<open>
  \<open>sendMessage\<close>: \<open>env\<close> is \<open>process.env.BUSINESS_PHONE_NUMBER\<close>. The document is
  saved directly, not through \<open>saveMessage\<close>; a validation error of the schema and a
  duplicate key are both answered with status 400 (the text of the former lists the
  schema's messages and is abbreviated here).
\<close>

definition sendMessage ::
    "string option \<Rightarrow> string \<Rightarrow> world \<Rightarrow> string option \<Rightarrow> string option \<Rightarrow> string option
      \<Rightarrow> world \<times> message response" where
  "sendMessage env rnd w waId txt providedName =
     (case validateMessageInput txt waId of
        Invalid e \<Rightarrow> (w, Failure 400 e)
      | Valid \<Rightarrow>
          (let businessPhone = opt_or env ''+1234567890'';
               contactNameToUse = getContactName w (opt_or waId []) providedName;
               (messageData, w1) =
                 createOutgoingMessage w rnd (opt_or waId []) (opt_or txt []) businessPhone
                   contactNameToUse
           in case save w1 messageData of
                Inr (w2, savedMessage) \<Rightarrow> (w2, Success savedMessage)
              | Inl ValidationError \<Rightarrow> (w1, Failure 400 ''Validation failed'')
              | Inl DuplicateKey \<Rightarrow> (w1, Failure 400 ''Message with this ID already exists'')))"

record health =
  totalMessages :: nat
  totalConversations :: nat

text \<open>\<open>getHealth\<close>, without the time of day and the uptime of the process.\<close>

definition getHealth :: "world \<Rightarrow> health response" where
  "getHealth w =
     (let uniqueConversations = distinctSenderIds (docs w)
      in Success \<lparr>totalMessages = length (docs w),
                   totalConversations = length uniqueConversations\<rparr>)"

section \<open>Scenario data\<close>

text \<open>A webhook document with one entry, one change and the given value.\<close>

definition documentOf :: "wh_value \<Rightarrow> webhookData" where
  "documentOf v = \<lparr>metaData_entry = Some [\<lparr>e_changes = Some [\<lparr>ch_value = Some v\<rparr>]\<rparr>]\<rparr>"

definition alice :: contact where
  "alice = \<lparr>c_wa_id = Some ''+1111'', c_profile_name = Some ''Alice''\<rparr>"

text \<open>The message \<open>m1\<close> that Alice sends, and the same message sent by the business.\<close>

definition m1 :: wh_message where
  "m1 = \<lparr>m_id = Some ''m1'', m_from = Some ''+1111'', m_type = Some ''text'',
          m_text_body = Some ''hi'', m_timestamp = Some ''1000''\<rparr>"

text \<open>The same text sent by the business to Alice.\<close>

definition m2 :: wh_message where
  "m2 = \<lparr>m_id = Some ''m2'', m_from = Some ''+9999'', m_type = Some ''text'',
          m_text_body = Some ''hi'', m_timestamp = Some ''1000''\<rparr>"

definition valueOf :: "wh_message list \<Rightarrow> wh_value" where
  "valueOf ms = \<lparr>v_display_phone_number = Some ''+9999'', v_contacts = Some [alice],
                  v_messages = Some ms, v_statuses = None\<rparr>"

definition emptyWorld :: world where
  "emptyWorld = \<lparr>docs = [], clock = (\<lambda>n. 1700000000000 + n)\<rparr>"

text \<open>The record that ingesting \<open>m1\<close> into the empty world stores.\<close>

definition storedM1 :: message where
  "storedM1 = \<lparr>messageId = ''m1'', wa_id = ''+1111'', msgText = ''hi'', messageType = ''text'',
       fromNumber = ''+1111'', toNumber = ''+9999'', contactName = ''Alice'',
       timestamp = 1000000, isOutgoing = False, status = ''received'',
       createdAt = 1700000000000, updatedAt = 1700000000000\<rparr>"

text \<open>The world after \<open>m1\<close> has been ingested, and a status entry for a message id.\<close>

definition worldM1 :: world where
  "worldM1 = \<lparr>docs = [storedM1], clock = (\<lambda>n. 1700000000001 + n)\<rparr>"

definition statusFor :: "string \<Rightarrow> string \<Rightarrow> wh_status" where
  "statusFor mid st = \<lparr>s_id = Some mid, s_meta_msg_id = None, s_status = st\<rparr>"

text \<open>A document that carries \<open>m1\<close> together with its read receipt.\<close>

definition valueM1Read :: wh_value where
  "valueM1Read = (valueOf [m1])\<lparr>v_statuses := Some [statusFor ''m1'' ''read'']\<rparr>"

section \<open>Auxiliary notions of the proofs\<close>

text \<open>
  The status that a list of status entries leaves on a record with the given id and
  current status: the status of the last entry that names the id. (Not part of the
  program; used to describe the result of \<open>processStatusUpdates\<close>.)
\<close>

fun finalStatus :: "wh_status list \<Rightarrow> string \<Rightarrow> string \<Rightarrow> string" where
  "finalStatus [] mid cur = cur"
| "finalStatus (s # ss) mid cur =
     finalStatus ss mid
       (if js_or (s_id s) (s_meta_msg_id s) = Some mid \<and> mid \<noteq> [] then s_status s else cur)"

text \<open>
  A message that the business sent to \<open>+2222\<close>, a contact who never wrote, and the
  world that holds it next to Alice's message.
\<close>

definition sentTo2222 :: message where
  "sentTo2222 = \<lparr>messageId = ''m3'', wa_id = ''business'', msgText = ''hello'',
       messageType = ''text'', fromNumber = ''+9999'', toNumber = ''+2222'',
       contactName = ''You'', timestamp = 2000000, isOutgoing = True, status = ''sent'',
       createdAt = 1700000000001, updatedAt = 1700000000001\<rparr>"

definition worldTwo :: world where
  "worldTwo = \<lparr>docs = [storedM1, sentTo2222], clock = (\<lambda>n. 1700000000002 + n)\<rparr>"

text \<open>
  A second message of Alice with the timestamp of \<open>m1\<close>, and the world that holds both.
\<close>

definition storedM1b :: message where
  "storedM1b = storedM1\<lparr>messageId := ''m1b'', msgText := ''there''\<rparr>"

definition worldTie :: world where
  "worldTie = \<lparr>docs = [storedM1, storedM1b], clock = (\<lambda>n. 1700000000002 + n)\<rparr>"

text \<open>
  The reply of the business to Alice, and a world that holds the reply and Alice's
  message, the later one first.
\<close>

definition replyToAlice :: message where
  "replyToAlice = \<lparr>messageId = ''m2'', wa_id = ''business'', msgText = ''hello'',
       messageType = ''text'', fromNumber = ''+9999'', toNumber = ''+1111'',
       contactName = ''You'', timestamp = 2000000, isOutgoing = True, status = ''sent'',
       createdAt = 1700000000000, updatedAt = 1700000000000\<rparr>"

definition worldThread :: world where
  "worldThread = \<lparr>docs = [replyToAlice, storedM1], clock = (\<lambda>n. 1700000000002 + n)\<rparr>"

text \<open>
  A world in which a record already has the id that the next send will generate at
  time 1700000000000 with the random suffix \<open>k3j9x0q2a\<close>.
\<close>

definition worldClash :: world where
  "worldClash = \<lparr>docs = [storedM1\<lparr>messageId := ''msg_1700000000000_k3j9x0q2a''\<rparr>],
                  clock = (\<lambda>n. 1700000000000 + n)\<rparr>"

section \<open>Facts about saving\<close>

lemma castMessage_SomeD:
  assumes "castMessage d now = Some m"
  shows "d_messageId d = Some (messageId m)" "d_wa_id d = Some (wa_id m)"
    "d_fromNumber d = Some (fromNumber m)" "d_toNumber d = Some (toNumber m)"
    "d_timestamp d = Some (timestamp m)" "msgText m = d_text d"
    "messageType m = d_messageType d" "contactName m = d_contactName d"
    "isOutgoing m = d_isOutgoing d" "status m = d_status d"
    "createdAt m = now" "updatedAt m = now" "validate d"
  using assms by (auto simp: castMessage_def split: option.splits if_splits)

lemma castMessage_None_iff: "castMessage d now = None \<longleftrightarrow> \<not> validate d"
  by (auto simp: castMessage_def validate_def truthy_def split: option.splits)

lemma findOne_None_iff: "findOne p ds = None \<longleftrightarrow> (\<forall>d\<in>set ds. \<not> p d)"
  by (auto simp: findOne_def find_None_iff)

lemma saveMessage_TrueD:
  assumes "saveMessage w d = (w', True)"
  shows "\<exists>m. castMessage d (clock w 0) = Some m \<and> messageId m \<notin> set (map messageId (docs w)) \<and>
             w' = w\<lparr>docs := docs w @ [m], clock := (\<lambda>n. clock w (Suc n))\<rparr>"
  using assms
  by (auto simp: saveMessage_def save_def readClock_def split: option.splits sum.splits if_splits prod.splits)

lemma saveMessage_FalseD: "saveMessage w d = (w', False) \<Longrightarrow> w' = w"
  by (auto simp: saveMessage_def split: option.splits sum.splits prod.splits)

lemma saveMessage_skip:
  assumes "\<not> validate d \<or> (\<exists>mid. d_messageId d = Some mid \<and> mid \<in> set (map messageId (docs w)))"
  shows "saveMessage w d = (w, False)"
proof (cases "findOne (\<lambda>x. Some (messageId x) = d_messageId d) (docs w)")
  case (Some e)
  then show ?thesis by (simp add: saveMessage_def)
next
  case None
  then have "\<not> (\<exists>mid. d_messageId d = Some mid \<and> mid \<in> set (map messageId (docs w)))"
    by (auto simp: findOne_None_iff)
  with assms have "\<not> validate d" by blast
  then have "castMessage d (clock w 0) = None" by (simp add: castMessage_None_iff)
  then show ?thesis using None by (simp add: saveMessage_def save_def readClock_def)
qed

lemma saveMessage_insert:
  assumes "castMessage d (clock w 0) = Some m" "messageId m \<notin> set (map messageId (docs w))"
  shows "saveMessage w d = (w\<lparr>docs := docs w @ [m], clock := (\<lambda>n. clock w (Suc n))\<rparr>, True)"
proof -
  have "\<forall>x\<in>set (docs w). messageId x \<noteq> messageId m"
    using assms(2) by (simp add: image_iff) metis
  then have "findOne (\<lambda>x. Some (messageId x) = d_messageId d) (docs w) = None"
    using castMessage_SomeD(1)[OF assms(1)] by (simp add: findOne_None_iff)
  then show ?thesis using assms
    by (simp add: saveMessage_def save_def readClock_def)
qed

section \<open>Facts about the construction of a message\<close>

lemma saveMessage_docs:
  "docs (fst (saveMessage w d)) = docs w \<or>
   (\<exists>m. castMessage d (clock w 0) = Some m \<and> messageId m \<notin> set (map messageId (docs w)) \<and>
        docs (fst (saveMessage w d)) = docs w @ [m])"
proof (cases "saveMessage w d")
  case (Pair w' b)
  show ?thesis
  proof (cases b)
    case True
    with Pair saveMessage_TrueD[of w d w'] show ?thesis by auto
  next
    case False
    with Pair saveMessage_FalseD[of w d w'] show ?thesis by auto
  qed
qed

lemma processMessages_new_doc:
  assumes "x \<in> set (docs (processMessages w ms v bn))" "x \<notin> set (docs w)"
  shows "\<exists>message\<in>set ms. \<exists>now. castMessage (createMessageFromWebhook message v bn) now = Some x"
  using assms
proof (induction ms arbitrary: w)
  case Nil
  then show ?case by simp
next
  case (Cons a ms)
  let ?w1 = "fst (saveMessage w (createMessageFromWebhook a v bn))"
  from Cons.prems(1) have in1: "x \<in> set (docs (processMessages ?w1 ms v bn))" by simp
  show ?case
  proof (cases "x \<in> set (docs ?w1)")
    case True
    with Cons.prems(2) saveMessage_docs[of w "createMessageFromWebhook a v bn"]
    have "\<exists>now. castMessage (createMessageFromWebhook a v bn) now = Some x" by auto
    then show ?thesis by auto
  next
    case False
    from Cons.IH[OF in1 False] show ?thesis by auto
  qed
qed

lemma getContactInfo_fst:
  "fst (getContactInfoFromWebhook sender contacts) =
     (case contacts of
        None \<Rightarrow> sender
      | Some [] \<Rightarrow> sender
      | Some (c0 # cs) \<Rightarrow>
          if (\<exists>c\<in>set (c0 # cs). c_wa_id c = sender) then sender else c_wa_id c0)"
proof (cases contacts)
  case None
  then show ?thesis by (simp add: getContactInfoFromWebhook_def)
next
  case (Some l)
  show ?thesis
  proof (cases l)
    case Nil
    with Some show ?thesis by (simp add: getContactInfoFromWebhook_def)
  next
    case (Cons c0 cs)
    show ?thesis
    proof (cases "find (\<lambda>c. c_wa_id c = sender) (c0 # cs)")
      case None
      then have "\<not> (\<exists>c\<in>set (c0 # cs). c_wa_id c = sender)"
        by (simp only: find_None_iff) blast
      with None Some Cons show ?thesis
        by (simp add: getContactInfoFromWebhook_def Let_def)
    next
      case (Some c)
      then have "c \<in> set (c0 # cs)" "c_wa_id c = sender"
        by (auto simp only: find_Some_iff in_set_conv_nth)
      then have "\<exists>c\<in>set (c0 # cs). c_wa_id c = sender" by blast
      with Some \<open>contacts = Some l\<close> Cons \<open>c_wa_id c = sender\<close> show ?thesis
        by (simp add: getContactInfoFromWebhook_def Let_def)
    qed
  qed
qed

lemma createMessage_outgoing:
  assumes "truthy bn" "m_from message = bn"
  shows "d_isOutgoing (createMessageFromWebhook message v bn) = True"
    "d_wa_id (createMessageFromWebhook message v bn) = Some ''business''"
    "d_contactName (createMessageFromWebhook message v bn) = ''You''"
    "d_status (createMessageFromWebhook message v bn) = ''sent''"
    "d_toNumber (createMessageFromWebhook message v bn) =
       (case v_contacts v of Some (c0 # cs) \<Rightarrow> c_wa_id c0 | _ \<Rightarrow> None)"
  using assms by (simp_all add: createMessageFromWebhook_def)

lemma createMessage_incoming:
  assumes "\<not> (truthy bn \<and> m_from message = bn)"
  shows "d_isOutgoing (createMessageFromWebhook message v bn) = False"
    "d_wa_id (createMessageFromWebhook message v bn) =
       fst (getContactInfoFromWebhook (m_from message) (v_contacts v))"
    "d_contactName (createMessageFromWebhook message v bn) =
       snd (getContactInfoFromWebhook (m_from message) (v_contacts v))"
    "d_status (createMessageFromWebhook message v bn) = ''received''"
    "d_toNumber (createMessageFromWebhook message v bn) = bn"
  using assms by (auto simp: createMessageFromWebhook_def split: prod.splits)

lemma createMessage_common:
  "d_messageId (createMessageFromWebhook message v bn) = m_id message"
  "d_fromNumber (createMessageFromWebhook message v bn) = m_from message"
  "d_timestamp (createMessageFromWebhook message v bn) =
     map_option (\<lambda>n. n * 1000) (parseInt (m_timestamp message))"
  "d_text (createMessageFromWebhook message v bn) = opt_or (m_text_body message) []"
  "d_messageType (createMessageFromWebhook message v bn) = opt_or (m_type message) ''text''"
  by (simp_all add: createMessageFromWebhook_def split: prod.splits)

section \<open>Facts about the scenarios\<close>

lemma extract_documentOf:
  "extractWebhookData env (documentOf v) =
     Some \<lparr>wi_value = v, wi_businessNumber = js_or (v_display_phone_number v) env,
           wi_messages = v_messages v, wi_statuses = v_statuses v\<rparr>"
  by (simp add: extractWebhookData_def documentOf_def first_def)

lemma parseInt_1000: "parseInt (Some ''1000'') = Some 1000"
  by code_simp

lemma parseInt_0: "parseInt (Some ''0'') = Some 0"
  by code_simp

lemma parseInt_minus5: "parseInt (Some ''-5'') = Some (- 5)"
  by code_simp

lemma parseInt_abc: "parseInt (Some ''abc'') = None"
  by code_simp

lemma processMessages_m1:
  "docs (processMessages emptyWorld [m1] (valueOf [m1]) (Some ''+9999'')) = [storedM1]"
  by (simp add: valueOf_def alice_def js_or_def truthy_def
      createMessageFromWebhook_def getContactInfoFromWebhook_def opt_or_def saveMessage_def
      findOne_def save_def readClock_def castMessage_def validate_def messageTypeEnum_def
      statusEnum_def emptyWorld_def m1_def parseInt_1000 storedM1_def)

lemmas scenario_defs =
  processWebhookFile_def extract_documentOf valueOf_def alice_def js_or_def truthy_def
  createMessageFromWebhook_def getContactInfoFromWebhook_def opt_or_def saveMessage_def
  findOne_def save_def readClock_def castMessage_def validate_def messageTypeEnum_def
  statusEnum_def emptyWorld_def

section \<open>Facts about status updates\<close>

lemma length_updateOne: "length (updateOne p f ds) = length ds"
  by (induction ds) auto

lemma updateOne_no_match: "(\<forall>d\<in>set ds. \<not> p d) \<Longrightarrow> updateOne p f ds = ds"
  by (induction ds) auto

lemma updateOne_first_match:
  "p d \<Longrightarrow> (\<forall>x\<in>set pre. \<not> p x) \<Longrightarrow> updateOne p f (pre @ d # post) = pre @ f d # post"
  by (induction pre) auto

lemma map_updateOne_invariant:
  "(\<And>d. g (f d) = g d) \<Longrightarrow> map g (updateOne p f ds) = map g ds"
  by (induction ds) auto

lemma updateOne_distinct:
  "distinct (map messageId ds) \<Longrightarrow>
   updateOne (\<lambda>x. messageId x = mid) f ds = map (\<lambda>d. if messageId d = mid then f d else d) ds"
proof (induction ds)
  case Nil
  then show ?case by simp
next
  case (Cons a ds)
  show ?case
  proof (cases "messageId a = mid")
    case True
    with Cons.prems have "\<forall>d\<in>set ds. messageId d \<noteq> mid"
      by (simp add: image_iff) metis
    then have "map (\<lambda>d. if messageId d = mid then f d else d) ds = ds"
      by (induction ds) auto
    with True show ?thesis by simp
  next
    case False
    with Cons show ?thesis by simp
  qed
qed

lemma docs_updateMessageStatus:
  "docs (updateMessageStatus w mid st) =
     updateOne (\<lambda>x. messageId x = mid) (\<lambda>x. x\<lparr>status := st, updatedAt := clock w 0\<rparr>) (docs w)"
  by (simp add: updateMessageStatus_def readClock_def)

lemma map_docs_updateMessageStatus:
  assumes "\<And>d s t. g (d\<lparr>status := s, updatedAt := t\<rparr>) = g d"
  shows "map g (docs (updateMessageStatus w mid st)) = map g (docs w)"
  unfolding docs_updateMessageStatus by (rule map_updateOne_invariant) (rule assms)

lemma map_docs_processStatusUpdates:
  assumes "\<And>d s t. g (d\<lparr>status := s, updatedAt := t\<rparr>) = g d"
  shows "map g (docs (processStatusUpdates w ss)) = map g (docs w)"
proof (induction ss arbitrary: w)
  case Nil
  then show ?case by simp
next
  case (Cons s ss)
  show ?case
    using Cons.IH map_docs_updateMessageStatus[of g, OF assms]
    by (simp split: option.splits)
qed

lemma ids_processStatusUpdates:
  "map messageId (docs (processStatusUpdates w ss)) = map messageId (docs w)"
  by (rule map_docs_processStatusUpdates) simp

lemma processStatusUpdates_no_match:
  assumes "\<forall>s\<in>set ss. \<forall>mid. js_or (s_id s) (s_meta_msg_id s) = Some mid \<longrightarrow>
             mid \<notin> set (map messageId (docs w))"
  shows "docs (processStatusUpdates w ss) = docs w"
  using assms
proof (induction ss arbitrary: w)
  case Nil
  then show ?case by simp
next
  case (Cons s ss)
  show ?case
  proof (cases "js_or (s_id s) (s_meta_msg_id s)")
    case None
    with Cons show ?thesis by simp
  next
    case (Some mid)
    with Cons.prems have "mid \<notin> set (map messageId (docs w))" by simp
    then have "\<forall>d\<in>set (docs w). \<not> messageId d = mid"
      by (simp add: image_iff) metis
    then have same: "docs (updateMessageStatus w mid (s_status s)) = docs w"
      unfolding docs_updateMessageStatus by (rule updateOne_no_match)
    have "docs (processStatusUpdates (updateMessageStatus w mid (s_status s)) ss) = docs w"
      using Cons.IH[of "updateMessageStatus w mid (s_status s)"] Cons.prems same by simp
    moreover have "docs (processStatusUpdates w ss) = docs w"
      using Cons.IH[of w] Cons.prems by simp
    ultimately show ?thesis using Some by simp
  qed
qed

section \<open>Facts about repeated ingestion\<close>

lemma finalStatus_const_or_id:
  "finalStatus ss mid c1 = finalStatus ss mid c2 \<or> (\<forall>c. finalStatus ss mid c = c)"
proof (induction ss arbitrary: c1 c2)
  case Nil
  then show ?case by simp
next
  case (Cons s ss)
  show ?case
  proof (cases "js_or (s_id s) (s_meta_msg_id s) = Some mid \<and> mid \<noteq> []")
    case True
    then show ?thesis by simp
  next
    case False
    with Cons.IH[of c1 c2] show ?thesis by auto
  qed
qed

lemma finalStatus_idem: "finalStatus ss mid (finalStatus ss mid c) = finalStatus ss mid c"
  using finalStatus_const_or_id[of ss mid "finalStatus ss mid c" c] by auto

lemma distinct_updateMessageStatus:
  "distinct (map messageId (docs (updateMessageStatus w mid st))) = distinct (map messageId (docs w))"
proof -
  have "map messageId (docs (updateMessageStatus w mid st)) = map messageId (docs w)"
    by (rule map_docs_updateMessageStatus) simp
  then show ?thesis by simp
qed

lemma processStatusUpdates_final:
  assumes "distinct (map messageId (docs w))"
  shows "map (\<lambda>d. d\<lparr>updatedAt := 0\<rparr>) (docs (processStatusUpdates w ss)) =
         map (\<lambda>d. d\<lparr>status := finalStatus ss (messageId d) (status d), updatedAt := 0\<rparr>) (docs w)"
  using assms
proof (induction ss arbitrary: w)
  case Nil
  then show ?case by simp
next
  case (Cons s ss)
  show ?case
  proof (cases "\<exists>mid. js_or (s_id s) (s_meta_msg_id s) = Some mid \<and> mid \<noteq> []")
    case False
    then have step: "processStatusUpdates w (s # ss) = processStatusUpdates w ss"
      by (auto split: option.splits)
    have fs: "\<And>i c. finalStatus (s # ss) i c = finalStatus ss i c"
      using False by auto
    show ?thesis unfolding step fs by (rule Cons.IH[OF Cons.prems])
  next
    case True
    then obtain mid where key: "js_or (s_id s) (s_meta_msg_id s) = Some mid" "mid \<noteq> []"
      by blast
    let ?w1 = "updateMessageStatus w mid (s_status s)"
    let ?u = "\<lambda>d. if messageId d = mid then d\<lparr>status := s_status s, updatedAt := clock w 0\<rparr> else d"
    have step: "processStatusUpdates w (s # ss) = processStatusUpdates ?w1 ss"
      using key by simp
    have d1: "distinct (map messageId (docs ?w1))"
      using Cons.prems by (simp add: distinct_updateMessageStatus)
    have docs1: "docs ?w1 = map ?u (docs w)"
      unfolding docs_updateMessageStatus using Cons.prems by (rule updateOne_distinct)
    have "map (\<lambda>d. d\<lparr>updatedAt := 0\<rparr>) (docs (processStatusUpdates ?w1 ss)) =
          map (\<lambda>d. d\<lparr>status := finalStatus ss (messageId d) (status d), updatedAt := 0\<rparr>) (map ?u (docs w))"
      using Cons.IH[OF d1] docs1 by simp
    also have "\<dots> = map (\<lambda>d. d\<lparr>status := finalStatus (s # ss) (messageId d) (status d), updatedAt := 0\<rparr>) (docs w)"
      using key by (simp add: comp_def)
    finally show ?thesis using step by simp
  qed
qed


lemma saveMessage_settled:
  "\<not> validate d \<or>
   (\<exists>mid. d_messageId d = Some mid \<and> mid \<in> set (map messageId (docs (fst (saveMessage w d)))))"
proof (cases "findOne (\<lambda>x. Some (messageId x) = d_messageId d) (docs w)")
  case (Some e)
  then have "e \<in> set (docs w)" "Some (messageId e) = d_messageId d"
    by (auto simp: findOne_def find_Some_iff)
  moreover from Some have "saveMessage w d = (w, False)" by (simp add: saveMessage_def)
  ultimately show ?thesis by (metis fst_conv image_eqI set_map)
next
  case None
  show ?thesis
  proof (cases "castMessage d (clock w 0)")
    case cNone: None
    then show ?thesis by (simp add: castMessage_None_iff)
  next
    case (Some m)
    have nin: "messageId m \<notin> set (map messageId (docs w))"
    proof
      assume "messageId m \<in> set (map messageId (docs w))"
      then obtain e where "e \<in> set (docs w)" "messageId e = messageId m" by auto
      with None castMessage_SomeD(1)[OF Some] show False
        by (auto simp: findOne_None_iff)
    qed
    from saveMessage_insert[OF Some nin] castMessage_SomeD(1)[OF Some] show ?thesis by simp
  qed
qed

lemma ids_saveMessage_mono:
  "set (map messageId (docs w)) \<subseteq> set (map messageId (docs (fst (saveMessage w d))))"
  using saveMessage_docs[of w d] by auto

lemma ids_processMessages_mono:
  "set (map messageId (docs w)) \<subseteq> set (map messageId (docs (processMessages w ms v bn)))"
proof (induction ms arbitrary: w)
  case Nil
  then show ?case by simp
next
  case (Cons a ms)
  from ids_saveMessage_mono[of w "createMessageFromWebhook a v bn"]
    Cons.IH[of "fst (saveMessage w (createMessageFromWebhook a v bn))"]
  show ?case by (simp only: processMessages.simps; blast)
qed

lemma distinct_saveMessage:
  "distinct (map messageId (docs w)) \<Longrightarrow> distinct (map messageId (docs (fst (saveMessage w d))))"
  using saveMessage_docs[of w d] by auto

lemma distinct_processMessages:
  "distinct (map messageId (docs w)) \<Longrightarrow> distinct (map messageId (docs (processMessages w ms v bn)))"
proof (induction ms arbitrary: w)
  case Nil
  then show ?case by simp
next
  case (Cons a ms)
  from Cons.IH[OF distinct_saveMessage[OF Cons.prems]] show ?case by simp
qed

lemma processMessages_settled:
  assumes "message \<in> set ms"
  shows "\<not> validate (createMessageFromWebhook message v bn) \<or>
         (\<exists>mid. m_id message = Some mid \<and>
                mid \<in> set (map messageId (docs (processMessages w ms v bn))))"
  using assms
proof (induction ms arbitrary: w)
  case Nil
  then show ?case by simp
next
  case (Cons a ms)
  let ?w1 = "fst (saveMessage w (createMessageFromWebhook a v bn))"
  show ?case
  proof (cases "message = a")
    case True
    from saveMessage_settled[of "createMessageFromWebhook a v bn" w]
      ids_processMessages_mono[of ?w1 ms v bn] True
    show ?thesis by (simp only: processMessages.simps createMessage_common; blast)
  next
    case False
    with Cons.prems have "message \<in> set ms" by simp
    from Cons.IH[OF this, of ?w1] show ?thesis by simp
  qed
qed

lemma processMessages_skip_all:
  assumes "\<forall>message\<in>set ms. \<not> validate (createMessageFromWebhook message v bn) \<or>
             (\<exists>mid. m_id message = Some mid \<and> mid \<in> set (map messageId (docs w)))"
  shows "processMessages w ms v bn = w"
  using assms
proof (induction ms)
  case Nil
  then show ?case by simp
next
  case (Cons a ms)
  from Cons.prems have "saveMessage w (createMessageFromWebhook a v bn) = (w, False)"
    by (intro saveMessage_skip) (simp add: createMessage_common)
  with Cons show ?case by simp
qed

lemma count_distinct_id:
  "distinct (map messageId ds) \<Longrightarrow> mid \<in> set (map messageId ds) \<Longrightarrow>
   length (filter (\<lambda>x. messageId x = mid) ds) = 1"
proof (induction ds)
  case Nil
  then show ?case by simp
next
  case (Cons a ds)
  show ?case
  proof (cases "messageId a = mid")
    case True
    with Cons.prems have "\<forall>x\<in>set ds. messageId x \<noteq> mid"
      by (simp add: image_iff) metis
    then have "filter (\<lambda>x. messageId x = mid) ds = []" by (simp add: filter_empty_conv)
    with True show ?thesis by simp
  next
    case False
    with Cons show ?thesis by auto
  qed
qed

text \<open>The messages and status entries that \<open>processWebhookFile\<close> works on.\<close>

lemma processWebhookFile_eq:
  "processWebhookFile env w doc =
     (case extractWebhookData env doc of
        None \<Rightarrow> w
      | Some info \<Rightarrow>
          processStatusUpdates
            (processMessages w (case wi_messages info of None \<Rightarrow> [] | Some l \<Rightarrow> l)
               (wi_value info) (wi_businessNumber info))
            (case wi_statuses info of None \<Rightarrow> [] | Some l \<Rightarrow> l))"
  by (simp add: processWebhookFile_def Let_def split: option.splits list.splits)


lemma ingest_twice:
  fixes w :: world and ms :: "wh_message list" and v :: wh_value and bn :: "string option"
    and ss :: "wh_status list"
  assumes dist: "distinct (map messageId (docs w))"
  defines "wB \<equiv> processMessages w ms v bn"
  defines "wA \<equiv> processStatusUpdates wB ss"
  shows "processMessages wA ms v bn = wA"
    and "map messageId (docs (processStatusUpdates wA ss)) = map messageId (docs wB)"
    and "distinct (map messageId (docs wB))"
    and "map (\<lambda>x. x\<lparr>updatedAt := 0\<rparr>) (docs (processStatusUpdates wA ss)) =
         map (\<lambda>x. x\<lparr>updatedAt := 0\<rparr>) (docs wA)"
proof -
  have idsA: "map messageId (docs wA) = map messageId (docs wB)"
    unfolding wA_def by (rule ids_processStatusUpdates)
  show "processMessages wA ms v bn = wA"
  proof (rule processMessages_skip_all, rule ballI)
    fix message assume "message \<in> set ms"
    from processMessages_settled[OF this, of v bn w]
    show "\<not> validate (createMessageFromWebhook message v bn) \<or>
          (\<exists>mid. m_id message = Some mid \<and> mid \<in> set (map messageId (docs wA)))"
      unfolding idsA wB_def .
  qed
  show "map messageId (docs (processStatusUpdates wA ss)) = map messageId (docs wB)"
    using idsA by (simp add: ids_processStatusUpdates)
  show distB: "distinct (map messageId (docs wB))"
    unfolding wB_def using dist by (rule distinct_processMessages)
  then have distA: "distinct (map messageId (docs wA))" using idsA by simp
  let ?h = "\<lambda>d. d\<lparr>status := finalStatus ss (messageId d) (status d), updatedAt := 0\<rparr>"
  let ?strip = "\<lambda>x. x\<lparr>updatedAt := 0\<rparr>"
  have A: "map ?strip (docs wA) = map ?h (docs wB)"
    unfolding wA_def using distB by (rule processStatusUpdates_final)
  have hs: "\<And>d. ?h (?strip d) = ?h d" by simp
  have hh: "\<And>d. ?h (?h d) = ?h d" by (simp add: finalStatus_idem)
  have "map ?strip (docs (processStatusUpdates wA ss)) = map ?h (docs wA)"
    using distA by (rule processStatusUpdates_final)
  also have "\<dots> = map ?h (map ?strip (docs wA))"
    by (simp only: map_map comp_def hs)
  also have "\<dots> = map ?h (map ?h (docs wB))"
    by (simp only: A)
  also have "\<dots> = map ?h (docs wB)"
    by (simp only: map_map comp_def hh)
  also have "\<dots> = map ?strip (docs wA)"
    by (simp only: A)
  finally show "map ?strip (docs (processStatusUpdates wA ss)) = map ?strip (docs wA)" .
qed

section \<open>Facts about the conversation list\<close>

lemma set_distinctSenderIds:
  "set (distinctSenderIds ds) = wa_id ` {d \<in> set ds. \<not> isOutgoing d}"
  by (auto simp: distinctSenderIds_def)

lemma distinct_distinctSenderIds: "distinct (distinctSenderIds ds)"
  by (simp add: distinctSenderIds_def)

lemma length_distinctSenderIds:
  "length (distinctSenderIds ds) = card (wa_id ` {d \<in> set ds. \<not> isOutgoing d})"
proof -
  have "length (distinctSenderIds ds) = card (set (distinctSenderIds ds))"
    using distinct_distinctSenderIds by (simp add: distinct_card)
  then show ?thesis by (simp only: set_distinctSenderIds)
qed

lemma findOneSortedDesc_Some:
  assumes "d \<in> set ds" "p d"
  shows "\<exists>l. findOneSortedDesc p ds = Some l"
proof -
  have "d \<in> set (sort_key (\<lambda>d. - timestamp d) (filter p ds))"
    using assms by simp
  then have "sort_key (\<lambda>d. - timestamp d) (filter p ds) \<noteq> []"
    by (metis empty_iff empty_set)
  then show ?thesis
    by (cases "sort_key (\<lambda>d. - timestamp d) (filter p ds)") (simp_all add: findOneSortedDesc_def)
qed

lemma buildConversationSummary_sender:
  assumes "waId \<in> set (distinctSenderIds ds)"
  shows "\<exists>c. buildConversationSummary ds waId = Some c \<and> cs_wa_id c = waId"
proof -
  from assms obtain d where d: "d \<in> set ds" "wa_id d = waId"
    by (auto simp: set_distinctSenderIds)
  then have "inConversation waId d" by (simp add: inConversation_def)
  from findOneSortedDesc_Some[of d ds "inConversation waId", OF d(1) this] obtain l
    where "findOneSortedDesc (inConversation waId) ds = Some l" by blast
  then show ?thesis by (simp add: buildConversationSummary_def Let_def)
qed

lemma map_filter_all_Some:
  "(\<And>x. x \<in> set xs \<Longrightarrow> \<exists>c. f x = Some c \<and> g c = x) \<Longrightarrow> map g (List.map_filter f xs) = xs"
proof (induction xs)
  case Nil
  then show ?case by (simp add: map_filter_simps)
next
  case (Cons a xs)
  from Cons.prems[of a] obtain c where "f a = Some c" "g c = a" by auto
  moreover have "map g (List.map_filter f xs) = xs"
    by (rule Cons.IH) (simp add: Cons.prems)
  ultimately show ?case by (simp add: map_filter_simps)
qed

lemma getConversations_ids:
  "\<exists>cs0. getConversations w = Success (sort_key (\<lambda>c. - cs_lastMessageTime c) cs0) \<and>
         map cs_wa_id cs0 = distinctSenderIds (docs w)"
proof -
  let ?cs0 = "List.map_filter (buildConversationSummary (docs w)) (distinctSenderIds (docs w))"
  have "map cs_wa_id ?cs0 = distinctSenderIds (docs w)"
    by (rule map_filter_all_Some) (rule buildConversationSummary_sender)
  then show ?thesis by (auto simp: getConversations_def Let_def)
qed

lemma distinct_map_sort_key:
  "distinct (map g (sort_key k xs)) = distinct (map g xs)"
  by (simp add: distinct_map)

section \<open>Facts about the message list\<close>

lemma getMessages_Success:
  "i \<noteq> [] \<Longrightarrow> getMessages w (Some i) = Success (sort_key timestamp (filter (inConversation i) (docs w)))"
  by (simp add: getMessages_def findSortedAsc_def)

section \<open>Facts about sending\<close>

lemma opt_or_nonempty: "dflt \<noteq> [] \<Longrightarrow> opt_or a dflt \<noteq> []"
  by (simp add: opt_or_def split: option.splits)

lemma trim_Nil: "trim [] = []"
  by (simp add: trim_def)

lemma decimal_1700000000000: "decimal 1700000000000 = ''1700000000000''"
  by (simp add: decimal.simps char_of_def bit_Suc_0_iff)

lemma validateMessageInput_Valid:
  "validateMessageInput txt waId = Valid \<longleftrightarrow>
     truthy txt \<and> trim (opt_or txt []) \<noteq> [] \<and> truthy waId"
  by (simp add: validateMessageInput_def)

lemma createOutgoingMessage_eq:
  "createOutgoingMessage w rnd waId txt businessPhone cName =
     (\<lparr>d_messageId = Some (''msg_'' @ decimal (clock w 0) @ ''_'' @ rnd),
       d_wa_id = Some ''business'', d_text = trim txt, d_messageType = ''text'',
       d_fromNumber = Some businessPhone, d_toNumber = Some waId, d_contactName = ''You'',
       d_timestamp = Some (int (clock w 1)), d_isOutgoing = True, d_status = ''sent''\<rparr>,
      w\<lparr>clock := (\<lambda>n. clock w (Suc (Suc n)))\<rparr>)"
  by (simp add: createOutgoingMessage_def readClock_def)

lemma sendMessage_valid:
  fixes w :: world and rnd :: string and env :: "string option" and i t :: string
  assumes "i \<noteq> []" "trim t \<noteq> []"
  defines "mid \<equiv> ''msg_'' @ decimal (clock w 0) @ ''_'' @ rnd"
  defines "m \<equiv> \<lparr>messageId = mid, wa_id = ''business'', msgText = trim t,
      messageType = ''text'', fromNumber = opt_or env ''+1234567890'', toNumber = i,
      contactName = ''You'', timestamp = int (clock w 1), isOutgoing = True,
      status = ''sent'', createdAt = clock w 2, updatedAt = clock w 2\<rparr>"
  shows "sendMessage env rnd w (Some i) (Some t) nm =
     (if mid \<in> set (map messageId (docs w))
      then (w\<lparr>clock := (\<lambda>n. clock w (Suc (Suc n)))\<rparr>,
            Failure 400 ''Message with this ID already exists'')
      else (w\<lparr>docs := docs w @ [m], clock := (\<lambda>n. clock w (Suc (Suc (Suc n))))\<rparr>,
            Success m))"
proof -
  have t: "t \<noteq> []" using assms(2) trim_Nil by auto
  have v: "validateMessageInput (Some t) (Some i) = Valid"
    using assms(1,2) t by (simp add: validateMessageInput_Valid truthy_def opt_or_def)
  have bp: "opt_or env ''+1234567890'' \<noteq> []" by (rule opt_or_nonempty) simp
  show ?thesis
    using assms(1) t bp
    by (simp add: sendMessage_def v createOutgoingMessage_eq save_def readClock_def
        castMessage_def validate_def truthy_def messageTypeEnum_def statusEnum_def
        opt_or_def[of "Some i"] opt_or_def[of "Some t"] mid_def m_def numeral_2_eq_2 Let_def)
qed


lemma decimal_1700000000001: "decimal 1700000000001 = ''1700000000001''"
  by (simp add: decimal.simps char_of_def bit_Suc_0_iff)

lemma trim_hello: "trim ''hello'' = ''hello''" "trim '' hello '' = ''hello''" "trim ''   '' = []"
  by (simp_all add: trim_def isWhiteSpace_def)

lemma sendMessage_invalid:
  assumes "\<not> truthy txt \<or> trim (opt_or txt []) = [] \<or> \<not> truthy waId"
  shows "\<exists>e. sendMessage env rnd w waId txt nm = (w, Failure 400 e)"
proof -
  from assms have "validateMessageInput txt waId \<noteq> Valid"
    by (simp add: validateMessageInput_Valid)
  then obtain e where "validateMessageInput txt waId = Invalid e"
    by (cases "validateMessageInput txt waId") auto
  then show ?thesis by (simp add: sendMessage_def)
qed

section \<open>Facts about the sentinel of outgoing records\<close>

lemma createMessage_outgoing_sentinel:
  "d_isOutgoing (createMessageFromWebhook message v bn) \<Longrightarrow>
   d_wa_id (createMessageFromWebhook message v bn) = Some ''business''"
  by (cases "truthy bn \<and> m_from message = bn")
    (simp_all add: createMessage_outgoing createMessage_incoming)

lemma processMessages_sentinel:
  assumes "\<forall>d\<in>set (docs w). isOutgoing d \<longrightarrow> wa_id d = ''business''"
  shows "\<forall>d\<in>set (docs (processMessages w ms v bn)). isOutgoing d \<longrightarrow> wa_id d = ''business''"
proof (intro ballI impI)
  fix d assume d: "d \<in> set (docs (processMessages w ms v bn))" "isOutgoing d"
  show "wa_id d = ''business''"
  proof (cases "d \<in> set (docs w)")
    case True
    with assms d(2) show ?thesis by blast
  next
    case False
    from processMessages_new_doc[OF d(1) False] obtain message now
      where cast: "castMessage (createMessageFromWebhook message v bn) now = Some d" by blast
    note f = castMessage_SomeD[OF cast]
    from f(9) d(2) have "d_isOutgoing (createMessageFromWebhook message v bn)" by simp
    from createMessage_outgoing_sentinel[OF this] f(2) show ?thesis by simp
  qed
qed

lemma processStatusUpdates_sentinel:
  assumes "\<forall>d\<in>set (docs w). isOutgoing d \<longrightarrow> wa_id d = ''business''"
  shows "\<forall>d\<in>set (docs (processStatusUpdates w ss)). isOutgoing d \<longrightarrow> wa_id d = ''business''"
proof -
  let ?g = "\<lambda>d. (isOutgoing d, wa_id d)"
  have "map ?g (docs (processStatusUpdates w ss)) = map ?g (docs w)"
    by (rule map_docs_processStatusUpdates) simp
  then have "set (map ?g (docs (processStatusUpdates w ss))) = set (map ?g (docs w))"
    by simp
  then have eq: "?g ` set (docs (processStatusUpdates w ss)) = ?g ` set (docs w)"
    by simp
  show ?thesis
  proof (intro ballI impI)
    fix d assume d: "d \<in> set (docs (processStatusUpdates w ss))" "isOutgoing d"
    then have "?g d \<in> ?g ` set (docs w)" using eq by blast
    then obtain e where e: "e \<in> set (docs w)" "?g e = ?g d" by (metis (lifting) imageE)
    with assms d(2) show "wa_id d = ''business''" by auto
  qed
qed

lemma processWebhookFile_sentinel:
  assumes "\<forall>d\<in>set (docs w). isOutgoing d \<longrightarrow> wa_id d = ''business''"
  shows "\<forall>d\<in>set (docs (processWebhookFile env w doc)). isOutgoing d \<longrightarrow> wa_id d = ''business''"
proof (cases "extractWebhookData env doc")
  case None
  with assms show ?thesis by (simp add: processWebhookFile_eq)
next
  case (Some info)
  from processStatusUpdates_sentinel[OF processMessages_sentinel[OF assms]] Some
  show ?thesis by (simp add: processWebhookFile_eq)
qed

lemma sendMessage_sentinel:
  assumes "\<forall>d\<in>set (docs w). isOutgoing d \<longrightarrow> wa_id d = ''business''"
  shows "\<forall>d\<in>set (docs (fst (sendMessage env rnd w waId txt nm))). isOutgoing d \<longrightarrow> wa_id d = ''business''"
proof (cases "validateMessageInput txt waId = Valid")
  case False
  then have "\<exists>e. sendMessage env rnd w waId txt nm = (w, Failure 400 e)"
    by (intro sendMessage_invalid) (simp add: validateMessageInput_Valid)
  with assms show ?thesis by auto
next
  case True
  then obtain i t where it: "waId = Some i" "i \<noteq> []" "txt = Some t" "trim t \<noteq> []"
    by (auto simp: validateMessageInput_Valid truthy_def opt_or_def split: option.splits)
  show ?thesis
    unfolding it(1,3) sendMessage_valid[OF it(2,4)] using assms by simp
qed

section \<open>Claims\<close>

text \<open>
  C7. Ingesting the document with the single message \<open>m1\<close> from \<open>+1111\<close>, business
  address \<open>+9999\<close> and contact Alice into an empty store leaves exactly one record, with
  \<open>messageId = m1\<close>, \<open>wa_id = +1111\<close>, \<open>isOutgoing = false\<close>, \<open>contactName = Alice\<close>,
  \<open>timestamp = 1000000\<close> and \<open>status = received\<close>, whatever the clock and the
  environment are.
\<close>

theorem scenario_ingest_m1:
  "docs (processWebhookFile env \<lparr>docs = [], clock = c\<rparr> (documentOf (valueOf [m1]))) =
     [\<lparr>messageId = ''m1'', wa_id = ''+1111'', msgText = ''hi'', messageType = ''text'',
       fromNumber = ''+1111'', toNumber = ''+9999'', contactName = ''Alice'',
       timestamp = 1000000, isOutgoing = False, status = ''received'',
       createdAt = c 0, updatedAt = c 0\<rparr>]"
  by (simp add: scenario_defs m1_def parseInt_1000)

text \<open>
  C1, as the code has it. Every record that the processing of a batch adds to the store
  comes from an entry of the batch. If the entry's sender is the business address, the
  record is outgoing, its \<open>wa_id\<close> is the sentinel \<open>business\<close> and its \<open>toNumber\<close> is
  the address of the batch's first contact. Otherwise the record is incoming and its
  \<open>wa_id\<close> is the sender's address when there are no contacts or one of them has that
  address, and the first contact's address when there are contacts and none matches.
\<close>

theorem direction_resolution:
  assumes "x \<in> set (docs (processMessages w ms v bn))" and "x \<notin> set (docs w)"
  shows "\<exists>message\<in>set ms.
           m_id message = Some (messageId x) \<and> m_from message = Some (fromNumber x) \<and>
           (if truthy bn \<and> m_from message = bn
            then isOutgoing x \<and> wa_id x = ''business'' \<and>
                 (\<exists>c0 cs. v_contacts v = Some (c0 # cs) \<and> c_wa_id c0 = Some (toNumber x))
            else \<not> isOutgoing x \<and> bn = Some (toNumber x) \<and>
                 (case v_contacts v of
                    None \<Rightarrow> m_from message = Some (wa_id x)
                  | Some [] \<Rightarrow> m_from message = Some (wa_id x)
                  | Some (c0 # cs) \<Rightarrow>
                      if \<exists>c\<in>set (c0 # cs). c_wa_id c = m_from message
                      then m_from message = Some (wa_id x)
                      else c_wa_id c0 = Some (wa_id x)))"
proof -
  from processMessages_new_doc[OF assms] obtain message now
    where mem: "message \<in> set ms"
      and cast: "castMessage (createMessageFromWebhook message v bn) now = Some x"
    by blast
  note f = castMessage_SomeD[OF cast]
  have ids: "m_id message = Some (messageId x)" "m_from message = Some (fromNumber x)"
    using f(1) f(3) by (simp_all add: createMessage_common)
  show ?thesis
  proof (cases "truthy bn \<and> m_from message = bn")
    case True
    then have t: "truthy bn" "m_from message = bn" by simp_all
    have "isOutgoing x" using f(9) createMessage_outgoing(1)[OF t] by simp
    moreover have "wa_id x = ''business''"
      using f(2) createMessage_outgoing(2)[OF t, of v] by simp
    moreover have "\<exists>c0 cs. v_contacts v = Some (c0 # cs) \<and> c_wa_id c0 = Some (toNumber x)"
      using f(4) createMessage_outgoing(5)[OF t, of v]
      by (auto split: option.splits list.splits)
    moreover have "bn = Some (fromNumber x)" "truthy (Some (fromNumber x))"
      using t ids by simp_all
    ultimately show ?thesis
      by (intro bexI[OF _ mem]) (simp add: ids)
  next
    case False
    have "\<not> isOutgoing x" using f(9) createMessage_incoming(1)[OF False] by simp
    moreover have "bn = Some (toNumber x)"
      using f(4) createMessage_incoming(5)[OF False, of v] by simp
    moreover have "fst (getContactInfoFromWebhook (m_from message) (v_contacts v)) = Some (wa_id x)"
      using f(2) createMessage_incoming(2)[OF False, of v] by simp
    then have "(case v_contacts v of
                    None \<Rightarrow> m_from message = Some (wa_id x)
                  | Some [] \<Rightarrow> m_from message = Some (wa_id x)
                  | Some (c0 # cs) \<Rightarrow>
                      if \<exists>c\<in>set (c0 # cs). c_wa_id c = m_from message
                      then m_from message = Some (wa_id x)
                      else c_wa_id c0 = Some (wa_id x))"
      unfolding getContactInfo_fst by (simp split: option.splits list.splits if_splits)
    moreover have "\<not> (truthy bn \<and> Some (fromNumber x) = bn)"
      using False ids by simp
    ultimately show ?thesis
      by (intro bexI[OF _ mem]) (simp add: ids)
  qed
qed


theorem direction_resolution_witness:
  "storedM1 \<in> set (docs (processMessages emptyWorld [m1] (valueOf [m1]) (Some ''+9999''))) \<and>
   storedM1 \<notin> set (docs emptyWorld) \<and>
   \<not> isOutgoing storedM1 \<and> m_from m1 = Some (wa_id storedM1)"
proof -
  have h1: "storedM1 \<in> set (docs (processMessages emptyWorld [m1] (valueOf [m1]) (Some ''+9999'')))"
    unfolding processMessages_m1 by simp
  have h2: "storedM1 \<notin> set (docs emptyWorld)"
    by (simp add: emptyWorld_def)
  from direction_resolution[OF h1 h2] have "\<not> isOutgoing storedM1 \<and> m_from m1 = Some (wa_id storedM1)"
    by (simp add: valueOf_def alice_def m1_def truthy_def storedM1_def)
  with h1 h2 show ?thesis by simp
qed

text \<open>
  C1 as stated fails: a message sent by the business (\<open>+9999\<close>) in a batch whose first
  contact is \<open>+1111\<close> is stored with \<open>wa_id = business\<close>; the contact's address is in
  \<open>toNumber\<close>.
\<close>

theorem direction_resolution_counterexample:
  "map (\<lambda>x. (isOutgoing x, wa_id x, toNumber x))
     (docs (processWebhookFile None emptyWorld (documentOf (valueOf [m2])))) =
   [(True, ''business'', ''+1111'')]"
  by (simp add: scenario_defs m2_def parseInt_1000)

text \<open>
  C4, as the code has it. Every record that a batch adds comes from an entry whose
  timestamp text \<open>parseInt\<close> reads as a number \<open>n\<close>, and when \<open>n * 1000\<close> is of
  magnitude below \<open>2 ^ 53\<close> (the range in which the doubles of the code are exact) the
  record's timestamp is the integer \<open>n * 1000\<close>; its sign is not checked. An entry
  whose timestamp text gives \<open>NaN\<close> is rejected by the save and leaves the store as it
  was.
\<close>

theorem timestamp_persisted:
  "(x \<in> set (docs (processMessages w ms v bn)) \<longrightarrow> x \<notin> set (docs w) \<longrightarrow>
      (\<exists>message\<in>set ms. m_id message = Some (messageId x) \<and>
         (\<exists>n. parseInt (m_timestamp message) = Some n \<and>
            (\<bar>n * 1000\<bar> < 2 ^ 53 \<longrightarrow> timestamp x = n * 1000)))) \<and>
   (parseInt (m_timestamp message') = None \<longrightarrow>
      saveMessage w' (createMessageFromWebhook message' v' bn') = (w', False))"
proof (intro conjI impI)
  assume a: "x \<in> set (docs (processMessages w ms v bn))" "x \<notin> set (docs w)"
  from processMessages_new_doc[OF a] obtain message now
    where mem: "message \<in> set ms"
      and cast: "castMessage (createMessageFromWebhook message v bn) now = Some x"
    by blast
  note f = castMessage_SomeD[OF cast]
  have "m_id message = Some (messageId x)"
    using f(1) by (simp add: createMessage_common)
  moreover have "\<exists>n. parseInt (m_timestamp message) = Some n \<and>
            (\<bar>n * 1000\<bar> < 2 ^ 53 \<longrightarrow> timestamp x = n * 1000)"
    using f(5) by (auto simp: createMessage_common)
  ultimately show "\<exists>message\<in>set ms. m_id message = Some (messageId x) \<and>
         (\<exists>n. parseInt (m_timestamp message) = Some n \<and>
            (\<bar>n * 1000\<bar> < 2 ^ 53 \<longrightarrow> timestamp x = n * 1000))"
    using mem by blast
next
  assume "parseInt (m_timestamp message') = None"
  then have "\<not> validate (createMessageFromWebhook message' v' bn')"
    by (simp add: validate_def createMessage_common)
  then show "saveMessage w' (createMessageFromWebhook message' v' bn') = (w', False)"
    by (simp add: saveMessage_skip)
qed

theorem timestamp_persisted_witness:
  "storedM1 \<in> set (docs (processMessages emptyWorld [m1] (valueOf [m1]) (Some ''+9999''))) \<and>
   storedM1 \<notin> set (docs emptyWorld) \<and>
   parseInt (m_timestamp m1) = Some 1000 \<and> \<bar>1000 * 1000 :: int\<bar> < 2 ^ 53 \<and>
   timestamp storedM1 = 1000 * 1000 \<and>
   saveMessage emptyWorld (createMessageFromWebhook m1 (valueOf [m1]) (Some ''+9999'')) =
     (emptyWorld\<lparr>docs := [storedM1], clock := (\<lambda>n. clock emptyWorld (Suc n))\<rparr>, True) \<and>
   parseInt (m_timestamp (m1\<lparr>m_timestamp := Some ''abc''\<rparr>)) = None \<and>
   saveMessage emptyWorld
     (createMessageFromWebhook (m1\<lparr>m_timestamp := Some ''abc''\<rparr>) (valueOf [m1])
        (Some ''+9999'')) =
     (emptyWorld, False)"
proof -
  have h1: "storedM1 \<in> set (docs (processMessages emptyWorld [m1] (valueOf [m1]) (Some ''+9999'')))"
    unfolding processMessages_m1 by simp
  have h2: "storedM1 \<notin> set (docs emptyWorld)"
    by (simp add: emptyWorld_def)
  have h3: "parseInt (m_timestamp (m1\<lparr>m_timestamp := Some ''abc''\<rparr>)) = None"
    by (simp add: parseInt_abc)
  have h4: "\<bar>1000 * 1000 :: int\<bar> < 2 ^ 53"
    by simp
  have ok: "saveMessage emptyWorld (createMessageFromWebhook m1 (valueOf [m1]) (Some ''+9999'')) =
     (emptyWorld\<lparr>docs := [storedM1], clock := (\<lambda>n. clock emptyWorld (Suc n))\<rparr>, True)"
    by (simp add: valueOf_def alice_def js_or_def truthy_def
        createMessageFromWebhook_def getContactInfoFromWebhook_def opt_or_def saveMessage_def
        findOne_def save_def readClock_def castMessage_def validate_def messageTypeEnum_def
        statusEnum_def emptyWorld_def m1_def parseInt_1000 storedM1_def)
  note t = timestamp_persisted[of storedM1 emptyWorld "[m1]" "valueOf [m1]" "Some ''+9999''"
      "m1\<lparr>m_timestamp := Some ''abc''\<rparr>" emptyWorld "valueOf [m1]" "Some ''+9999''"]
  from t h1 h2 obtain n where n: "parseInt (m_timestamp m1) = Some n"
      "\<bar>n * 1000\<bar> < 2 ^ 53 \<longrightarrow> timestamp storedM1 = n * 1000"
    by auto
  have p: "parseInt (m_timestamp m1) = Some 1000"
    by (simp add: m1_def parseInt_1000)
  with n(1) have "n = 1000" by simp
  with n(2) h4 have ts: "timestamp storedM1 = 1000 * 1000" by simp
  from t h3 have "saveMessage emptyWorld
     (createMessageFromWebhook (m1\<lparr>m_timestamp := Some ''abc''\<rparr>) (valueOf [m1])
        (Some ''+9999'')) =
     (emptyWorld, False)"
    by blast
  with h1 h2 h3 h4 p ts ok show ?thesis by blast
qed

text \<open>
  C4 as stated fails: entries with the timestamp texts \<open>0\<close> and \<open>-5\<close> are stored, with
  the timestamps 0 and -5000.
\<close>

theorem timestamp_persisted_counterexample:
  "map timestamp
     (docs (processWebhookFile None emptyWorld
        (documentOf (valueOf [m1\<lparr>m_timestamp := Some ''0''\<rparr>])))) = [0] \<and>
   map timestamp
     (docs (processWebhookFile None emptyWorld
        (documentOf (valueOf [m1\<lparr>m_timestamp := Some ''-5''\<rparr>])))) = [- 5000]"
  by (simp add: scenario_defs m1_def parseInt_0 parseInt_minus5)

text \<open>
  C3. A status update keeps the number of records. When no record has the given
  \<open>messageId\<close> the records stay as they are. Otherwise the first record with that id
  (the only one, ids being unique) gets the new status and the current time as
  \<open>updatedAt\<close>, and nothing else changes: not its other fields and not the records
  before or after it. For a whole list of status entries: every field other than
  \<open>status\<close> and \<open>updatedAt\<close> of every record stays, and the records stay as they are
  when no entry names the id of a stored record. The functions are total: no error
  leaves them.
\<close>

theorem status_update_frame:
  "length (docs (updateMessageStatus w mid st)) = length (docs w) \<and>
   ((\<forall>d\<in>set (docs w). messageId d \<noteq> mid) \<longrightarrow>
      docs (updateMessageStatus w mid st) = docs w) \<and>
   (docs w = pre @ d # post \<and> messageId d = mid \<and> (\<forall>x\<in>set pre. messageId x \<noteq> mid) \<longrightarrow>
      docs (updateMessageStatus w mid st) =
        pre @ d\<lparr>status := st, updatedAt := clock w 0\<rparr> # post) \<and>
   map (\<lambda>x. x\<lparr>status := [], updatedAt := 0\<rparr>) (docs (processStatusUpdates w ss)) =
     map (\<lambda>x. x\<lparr>status := [], updatedAt := 0\<rparr>) (docs w) \<and>
   ((\<forall>s\<in>set ss. \<forall>i. js_or (s_id s) (s_meta_msg_id s) = Some i \<longrightarrow>
        i \<notin> set (map messageId (docs w))) \<longrightarrow>
      docs (processStatusUpdates w ss) = docs w)"
proof (intro conjI impI)
  show "length (docs (updateMessageStatus w mid st)) = length (docs w)"
    by (simp add: docs_updateMessageStatus length_updateOne)
next
  assume "\<forall>d\<in>set (docs w). messageId d \<noteq> mid"
  then show "docs (updateMessageStatus w mid st) = docs w"
    by (simp add: docs_updateMessageStatus updateOne_no_match)
next
  assume a: "docs w = pre @ d # post \<and> messageId d = mid \<and> (\<forall>x\<in>set pre. messageId x \<noteq> mid)"
  then have "updateOne (\<lambda>x. messageId x = mid) (\<lambda>x. x\<lparr>status := st, updatedAt := clock w 0\<rparr>)
               (pre @ d # post) = pre @ d\<lparr>status := st, updatedAt := clock w 0\<rparr> # post"
    by (intro updateOne_first_match) simp_all
  with a show "docs (updateMessageStatus w mid st) =
        pre @ d\<lparr>status := st, updatedAt := clock w 0\<rparr> # post"
    by (simp add: docs_updateMessageStatus)
next
  show "map (\<lambda>x. x\<lparr>status := [], updatedAt := 0\<rparr>) (docs (processStatusUpdates w ss)) =
     map (\<lambda>x. x\<lparr>status := [], updatedAt := 0\<rparr>) (docs w)"
    by (rule map_docs_processStatusUpdates) simp
next
  assume "\<forall>s\<in>set ss. \<forall>i. js_or (s_id s) (s_meta_msg_id s) = Some i \<longrightarrow>
        i \<notin> set (map messageId (docs w))"
  then show "docs (processStatusUpdates w ss) = docs w"
    by (rule processStatusUpdates_no_match)
qed


theorem status_update_frame_witness:
  "docs worldM1 = [] @ storedM1 # [] \<and> messageId storedM1 = ''m1'' \<and>
   docs (updateMessageStatus worldM1 ''m1'' ''read'') =
     [storedM1\<lparr>status := ''read'', updatedAt := 1700000000001\<rparr>] \<and>
   docs (updateMessageStatus worldM1 ''m9'' ''read'') = docs worldM1 \<and>
   docs (processStatusUpdates worldM1 [statusFor ''m9'' ''read'']) = docs worldM1"
proof -
  have h1: "docs worldM1 = [] @ storedM1 # [] \<and> messageId storedM1 = ''m1'' \<and>
      (\<forall>x\<in>set []. messageId x \<noteq> ''m1'')"
    by (simp add: worldM1_def storedM1_def)
  have h2: "\<forall>d\<in>set (docs worldM1). messageId d \<noteq> ''m9''"
    by (simp add: worldM1_def storedM1_def)
  have h3: "\<forall>s\<in>set [statusFor ''m9'' ''read'']. \<forall>i. js_or (s_id s) (s_meta_msg_id s) = Some i \<longrightarrow>
        i \<notin> set (map messageId (docs worldM1))"
    by (simp add: worldM1_def storedM1_def statusFor_def js_or_def truthy_def)
  from h1 status_update_frame[of worldM1 "''m1''" "''read''" "[]" storedM1 "[]" "[]"]
  have "docs (updateMessageStatus worldM1 ''m1'' ''read'') =
     [] @ storedM1\<lparr>status := ''read'', updatedAt := clock worldM1 0\<rparr> # []"
    by blast
  then have r1: "docs (updateMessageStatus worldM1 ''m1'' ''read'') =
     [storedM1\<lparr>status := ''read'', updatedAt := 1700000000001\<rparr>]"
    by (simp add: worldM1_def)
  from h2 h3 status_update_frame[of worldM1 "''m9''" "''read''" "[]" storedM1 "[]"
      "[statusFor ''m9'' ''read'']"]
  have r2: "docs (updateMessageStatus worldM1 ''m9'' ''read'') = docs worldM1"
    and r3: "docs (processStatusUpdates worldM1 [statusFor ''m9'' ''read'']) = docs worldM1"
    by blast+
  from h1 r1 r2 r3 show ?thesis by simp
qed

text \<open>
  C2. Let the ids of the stored records be distinct, as the unique index keeps them.
  After a document has been ingested twice: the ids are still distinct; the records are
  those the first ingestion left, apart from the \<open>updatedAt\<close> stamps that the repeated
  status entries renew; every message entry of the document that passes the schema has
  exactly one record with its id; and when the document has no status entries the second
  ingestion leaves the world as it was. Saving a message whose id is already stored
  returns \<open>false\<close> and leaves the world as it was.
\<close>

theorem idempotent_ingestion:
  assumes "distinct (map messageId (docs w))"
  shows "distinct (map messageId (docs (processWebhookFile env (processWebhookFile env w doc) doc))) \<and>
    map (\<lambda>x. x\<lparr>updatedAt := 0\<rparr>) (docs (processWebhookFile env (processWebhookFile env w doc) doc)) =
      map (\<lambda>x. x\<lparr>updatedAt := 0\<rparr>) (docs (processWebhookFile env w doc)) \<and>
    (\<forall>info ms message.
       extractWebhookData env doc = Some info \<and> wi_messages info = Some ms \<and>
       message \<in> set ms \<and>
       validate (createMessageFromWebhook message (wi_value info) (wi_businessNumber info)) \<longrightarrow>
       length (filter (\<lambda>x. Some (messageId x) = m_id message)
         (docs (processWebhookFile env (processWebhookFile env w doc) doc))) = 1) \<and>
    (\<forall>info. extractWebhookData env doc = Some info \<and>
       (wi_statuses info = None \<or> wi_statuses info = Some []) \<longrightarrow>
       processWebhookFile env (processWebhookFile env w doc) doc = processWebhookFile env w doc) \<and>
    (\<forall>d. (\<exists>x\<in>set (docs w). Some (messageId x) = d_messageId d) \<longrightarrow>
       saveMessage w d = (w, False))"
proof -
  have last: "\<forall>d. (\<exists>x\<in>set (docs w). Some (messageId x) = d_messageId d) \<longrightarrow>
       saveMessage w d = (w, False)"
  proof (intro allI impI)
    fix d :: messageData
    assume "\<exists>x\<in>set (docs w). Some (messageId x) = d_messageId d"
    then obtain x where "x \<in> set (docs w)" "d_messageId d = Some (messageId x)" by auto
    then have "\<exists>mid. d_messageId d = Some mid \<and> mid \<in> set (map messageId (docs w))"
      by (metis image_eqI set_map)
    then show "saveMessage w d = (w, False)" by (simp add: saveMessage_skip)
  qed
  show ?thesis
  proof (cases "extractWebhookData env doc")
    case None
    then have "processWebhookFile env w doc = w" by (simp add: processWebhookFile_eq)
    with None assms last show ?thesis by simp
  next
    case (Some info)
    define ms where "ms = (case wi_messages info of None \<Rightarrow> [] | Some l \<Rightarrow> l)"
    define ss where "ss = (case wi_statuses info of None \<Rightarrow> [] | Some l \<Rightarrow> l)"
    define v where "v = wi_value info"
    define bn where "bn = wi_businessNumber info"
    define wB where "wB = processMessages w ms v bn"
    define wA where "wA = processStatusUpdates wB ss"
    have once: "processWebhookFile env w doc = wA"
      using Some by (simp add: processWebhookFile_eq wA_def wB_def ms_def ss_def v_def bn_def)
    note t =
      ingest_twice(1)[OF assms, where ms = ms and v = v and bn = bn and ss = ss,
        folded wB_def, folded wA_def]
      ingest_twice(2)[OF assms, where ms = ms and v = v and bn = bn and ss = ss,
        folded wB_def, folded wA_def]
      ingest_twice(3)[OF assms, where ms = ms and v = v and bn = bn, folded wB_def]
      ingest_twice(4)[OF assms, where ms = ms and v = v and bn = bn and ss = ss,
        folded wB_def, folded wA_def]
    have twice: "processWebhookFile env wA doc = processStatusUpdates wA ss"
      using Some t(1) by (simp add: processWebhookFile_eq ms_def ss_def v_def bn_def)
    have c1: "distinct (map messageId (docs (processStatusUpdates wA ss)))"
      using t(2) t(3) by simp
    have c3: "length (filter (\<lambda>x. Some (messageId x) = m_id message)
                (docs (processStatusUpdates wA ss))) = 1"
      if "wi_messages info = Some l" "message \<in> set l"
        "validate (createMessageFromWebhook message v bn)" for l message
    proof -
      from that have "message \<in> set ms" by (simp add: ms_def)
      from processMessages_settled[OF this, of v bn w] that(3)
      obtain mid where mid: "m_id message = Some mid" "mid \<in> set (map messageId (docs wB))"
        unfolding wB_def by blast
      then have "mid \<in> set (map messageId (docs (processStatusUpdates wA ss)))"
        using t(2) by simp
      from count_distinct_id[OF c1 this] mid(1) show ?thesis by simp
    qed
    have c4: "processStatusUpdates wA ss = wA"
      if "wi_statuses info = None \<or> wi_statuses info = Some []"
      using that by (auto simp: ss_def)
    show ?thesis
      unfolding once twice using c1 t(4) c3 c4 last Some
      by (simp add: v_def bn_def)
  qed
qed


theorem idempotent_ingestion_witness:
  "distinct (map messageId (docs worldM1)) \<and>
   distinct (map messageId
     (docs (processWebhookFile None (processWebhookFile None worldM1 (documentOf valueM1Read))
        (documentOf valueM1Read)))) \<and>
   length (filter (\<lambda>x. Some (messageId x) = m_id m1)
     (docs (processWebhookFile None (processWebhookFile None worldM1 (documentOf valueM1Read))
        (documentOf valueM1Read)))) = 1 \<and>
   processWebhookFile None (processWebhookFile None worldM1 (documentOf (valueOf [m1])))
     (documentOf (valueOf [m1])) =
     processWebhookFile None worldM1 (documentOf (valueOf [m1])) \<and>
   saveMessage worldM1 (createMessageFromWebhook m1 (valueOf [m1]) (Some ''+9999'')) =
     (worldM1, False)"
proof -
  have h0: "distinct (map messageId (docs worldM1))"
    by (simp add: worldM1_def)
  define I where "I = \<lparr>wi_value = valueM1Read,
      wi_businessNumber = js_or (v_display_phone_number valueM1Read) None,
      wi_messages = v_messages valueM1Read, wi_statuses = v_statuses valueM1Read\<rparr>"
  define J where "J = \<lparr>wi_value = valueOf [m1],
      wi_businessNumber = js_or (v_display_phone_number (valueOf [m1])) None,
      wi_messages = v_messages (valueOf [m1]), wi_statuses = v_statuses (valueOf [m1])\<rparr>"
  have h1: "extractWebhookData None (documentOf valueM1Read) = Some I \<and>
      wi_messages I = Some [m1] \<and> m1 \<in> set [m1] \<and>
      validate (createMessageFromWebhook m1 (wi_value I) (wi_businessNumber I))"
    by (simp add: I_def extract_documentOf valueM1Read_def valueOf_def alice_def m1_def
        js_or_def truthy_def createMessageFromWebhook_def getContactInfoFromWebhook_def
        opt_or_def validate_def messageTypeEnum_def statusEnum_def parseInt_1000)
  have h2: "extractWebhookData None (documentOf (valueOf [m1])) = Some J \<and>
      (wi_statuses J = None \<or> wi_statuses J = Some [])"
    by (simp add: J_def extract_documentOf valueOf_def)
  have h3: "\<exists>x\<in>set (docs worldM1). Some (messageId x) =
      d_messageId (createMessageFromWebhook m1 (valueOf [m1]) (Some ''+9999''))"
    by (simp add: worldM1_def storedM1_def createMessage_common m1_def)
  note T1 = idempotent_ingestion[OF h0, of None "documentOf valueM1Read"]
  note T2 = idempotent_ingestion[OF h0, of None "documentOf (valueOf [m1])"]
  from T1 have r1: "distinct (map messageId
     (docs (processWebhookFile None (processWebhookFile None worldM1 (documentOf valueM1Read))
        (documentOf valueM1Read))))"
    by (rule conjunct1)
  from T1 h1 have r2: "length (filter (\<lambda>x. Some (messageId x) = m_id m1)
     (docs (processWebhookFile None (processWebhookFile None worldM1 (documentOf valueM1Read))
        (documentOf valueM1Read)))) = 1"
    by blast
  from T2 h2 have r3: "processWebhookFile None (processWebhookFile None worldM1 (documentOf (valueOf [m1])))
     (documentOf (valueOf [m1])) =
     processWebhookFile None worldM1 (documentOf (valueOf [m1]))"
    by blast
  from T1 h3 have r4: "saveMessage worldM1 (createMessageFromWebhook m1 (valueOf [m1]) (Some ''+9999'')) =
     (worldM1, False)"
    by blast
  from h0 r1 r2 r3 r4 show ?thesis by blast
qed

text \<open>
  C5. The conversation list has exactly one summary for every \<open>wa_id\<close> that occurs on
  an incoming record, and no other summary. So an address that is the \<open>wa_id\<close> of no
  incoming record (a contact who has only been written to) is not in the list.
\<close>

theorem conversations_from_incoming:
  "\<exists>cs. getConversations w = Success cs \<and>
        distinct (map cs_wa_id cs) \<and>
        set (map cs_wa_id cs) = wa_id ` {d \<in> set (docs w). \<not> isOutgoing d} \<and>
        ((\<forall>d\<in>set (docs w). wa_id d = x \<longrightarrow> isOutgoing d) \<longrightarrow> x \<notin> set (map cs_wa_id cs))"
proof -
  from getConversations_ids[of w] obtain cs0
    where cs: "getConversations w = Success (sort_key (\<lambda>c. - cs_lastMessageTime c) cs0)"
      and ids: "map cs_wa_id cs0 = distinctSenderIds (docs w)"
    by blast
  let ?cs = "sort_key (\<lambda>c. - cs_lastMessageTime c) cs0"
  have d: "distinct (map cs_wa_id ?cs)"
    using distinct_distinctSenderIds[of "docs w"] ids
    by (simp only: distinct_map_sort_key)
  have "set (map cs_wa_id ?cs) = set (map cs_wa_id cs0)" by simp
  then have s: "set (map cs_wa_id ?cs) = wa_id ` {d \<in> set (docs w). \<not> isOutgoing d}"
    by (simp only: ids set_distinctSenderIds)
  have "x \<notin> set (map cs_wa_id ?cs)" if "\<forall>d\<in>set (docs w). wa_id d = x \<longrightarrow> isOutgoing d"
    unfolding s using that by auto
  with cs d s show ?thesis by blast
qed

theorem conversations_from_incoming_witness:
  "\<exists>cs. getConversations worldTwo = Success cs \<and>
        set (map cs_wa_id cs) = {''+1111''} \<and> ''+2222'' \<notin> set (map cs_wa_id cs)"
proof -
  have h: "\<forall>d\<in>set (docs worldTwo). wa_id d = ''+2222'' \<longrightarrow> isOutgoing d"
    by (simp add: worldTwo_def storedM1_def sentTo2222_def)
  have "{d \<in> set (docs worldTwo). \<not> isOutgoing d} =
      set (filter (\<lambda>d. \<not> isOutgoing d) (docs worldTwo))"
    by simp
  also have "\<dots> = {storedM1}"
    by (simp add: worldTwo_def storedM1_def sentTo2222_def)
  finally have i: "wa_id ` {d \<in> set (docs worldTwo). \<not> isOutgoing d} = {''+1111''}"
    by (simp add: storedM1_def)
  from conversations_from_incoming[of worldTwo "''+2222''"] h i obtain cs
    where cs: "getConversations worldTwo = Success cs" "distinct (map cs_wa_id cs)"
      "set (map cs_wa_id cs) = {''+1111''}" "''+2222'' \<notin> set (map cs_wa_id cs)"
    by auto
  then show ?thesis by blast
qed

text \<open>
  C10. The health report's \<open>totalConversations\<close> is the length of the conversation
  list, and both are the number of distinct \<open>wa_id\<close> values on incoming records.
\<close>

theorem health_counts_conversations:
  "\<exists>h cs. getHealth w = Success h \<and> getConversations w = Success cs \<and>
          totalConversations h = length cs \<and>
          length cs = card (wa_id ` {d \<in> set (docs w). \<not> isOutgoing d})"
proof -
  from getConversations_ids[of w] obtain cs0
    where cs: "getConversations w = Success (sort_key (\<lambda>c. - cs_lastMessageTime c) cs0)"
      and ids: "map cs_wa_id cs0 = distinctSenderIds (docs w)"
    by blast
  have "length cs0 = length (distinctSenderIds (docs w))"
    using ids by (metis length_map)
  then have len: "length (sort_key (\<lambda>c. - cs_lastMessageTime c) cs0) =
      length (distinctSenderIds (docs w))" by simp
  have h: "getHealth w = Success \<lparr>totalMessages = length (docs w),
      totalConversations = length (distinctSenderIds (docs w))\<rparr>"
    by (simp add: getHealth_def)
  show ?thesis
    using cs h len by (simp add: length_distinctSenderIds)
qed

text \<open>
  C6, as the code has it. For a non-empty id the message list holds exactly the stored
  records whose \<open>wa_id\<close> or \<open>toNumber\<close> is the id, each as often as it is stored, in
  ascending order of timestamp: a record that precedes another has a timestamp that is
  not greater, and a record with a smaller timestamp precedes. An id that no record
  matches gives the empty list. (An empty or absent id is answered with status 400.)
\<close>

theorem messages_chronological:
  "(i \<noteq> [] \<longrightarrow>
      (\<exists>ms. getMessages w (Some i) = Success ms \<and>
         mset ms = mset (filter (inConversation i) (docs w)) \<and>
         (\<forall>a b. a < b \<and> b < length ms \<longrightarrow> timestamp (ms ! a) \<le> timestamp (ms ! b)) \<and>
         (\<forall>a b. a < length ms \<and> b < length ms \<and> timestamp (ms ! a) < timestamp (ms ! b) \<longrightarrow>
            a < b) \<and>
         ((\<forall>d\<in>set (docs w). \<not> inConversation i d) \<longrightarrow> ms = []))) \<and>
   getMessages w (Some []) = Failure 400 ''wa_id is required'' \<and>
   getMessages w None = Failure 400 ''wa_id is required''"
proof (intro conjI impI)
  assume ne: "i \<noteq> []"
  let ?ms = "sort_key timestamp (filter (inConversation i) (docs w))"
  have srt: "sorted (map timestamp ?ms)" by (rule sorted_sort_key)
  have le: "timestamp (?ms ! a) \<le> timestamp (?ms ! b)" if "a < b \<and> b < length ?ms" for a b
  proof -
    from that have "a \<le> b" "b < length (map timestamp ?ms)" by simp_all
    from sorted_nth_mono[OF srt this] that show ?thesis by simp
  qed
  have lt: "a < b"
    if "a < length ?ms \<and> b < length ?ms \<and> timestamp (?ms ! a) < timestamp (?ms ! b)" for a b
  proof (rule ccontr)
    assume "\<not> a < b"
    then have "b \<le> a" by simp
    moreover from that have "a < length (map timestamp ?ms)" by simp
    ultimately have "map timestamp ?ms ! b \<le> map timestamp ?ms ! a"
      using srt by (rule sorted_nth_mono[rotated])
    with that show False by simp
  qed
  have emp: "?ms = []" if "\<forall>d\<in>set (docs w). \<not> inConversation i d"
    using that by (simp add: filter_empty_conv[THEN iffD2])
  have "mset ?ms = mset (filter (inConversation i) (docs w))" by simp
  with le lt emp getMessages_Success[OF ne, of w]
  show "\<exists>ms. getMessages w (Some i) = Success ms \<and>
         mset ms = mset (filter (inConversation i) (docs w)) \<and>
         (\<forall>a b. a < b \<and> b < length ms \<longrightarrow> timestamp (ms ! a) \<le> timestamp (ms ! b)) \<and>
         (\<forall>a b. a < length ms \<and> b < length ms \<and> timestamp (ms ! a) < timestamp (ms ! b) \<longrightarrow>
            a < b) \<and>
         ((\<forall>d\<in>set (docs w). \<not> inConversation i d) \<longrightarrow> ms = [])"
    by blast
next
  show "getMessages w (Some []) = Failure 400 ''wa_id is required''"
    by (simp add: getMessages_def)
next
  show "getMessages w None = Failure 400 ''wa_id is required''"
    by (simp add: getMessages_def)
qed

theorem messages_chronological_witness:
  "getMessages worldThread (Some ''+1111'') = Success [storedM1, replyToAlice] \<and>
   timestamp storedM1 \<le> timestamp replyToAlice \<and>
   timestamp storedM1 < timestamp replyToAlice \<and> (0 :: nat) < 1 \<and>
   getMessages worldThread (Some ''+3333'') = Success []"
proof -
  have ne: "''+1111'' \<noteq> []" "''+3333'' \<noteq> []" by simp_all
  have none: "\<forall>d\<in>set (docs worldThread). \<not> inConversation ''+3333'' d"
    by (simp add: worldThread_def storedM1_def replyToAlice_def inConversation_def)
  have ev: "getMessages worldThread (Some ''+1111'') = Success [storedM1, replyToAlice]"
    by (simp add: getMessages_def findSortedAsc_def worldThread_def inConversation_def
        storedM1_def replyToAlice_def)
  have lt: "timestamp storedM1 < timestamp replyToAlice"
    by (simp add: storedM1_def replyToAlice_def)
  from messages_chronological[of "''+1111''" worldThread] ne(1) obtain ms
    where ms: "getMessages worldThread (Some ''+1111'') = Success ms"
      and mono: "\<forall>a b. a < b \<and> b < length ms \<longrightarrow> timestamp (ms ! a) \<le> timestamp (ms ! b)"
    by blast
  from ms ev have "ms = [storedM1, replyToAlice]" by simp
  with mono have "\<forall>a b. a < b \<and> b < length [storedM1, replyToAlice] \<longrightarrow>
          timestamp ([storedM1, replyToAlice] ! a) \<le> timestamp ([storedM1, replyToAlice] ! b)"
    by blast
  then have "0 < (1::nat) \<and> 1 < length [storedM1, replyToAlice] \<longrightarrow>
          timestamp ([storedM1, replyToAlice] ! 0) \<le> timestamp ([storedM1, replyToAlice] ! 1)"
    by blast
  then have le: "timestamp storedM1 \<le> timestamp replyToAlice" by simp
  from messages_chronological[of "''+3333''" worldThread] ne(2) none
  have "getMessages worldThread (Some ''+3333'') = Success []" by blast
  with ev le lt show ?thesis by simp
qed

text \<open>
  C6 as stated fails when two records of a conversation have the same timestamp: one of
  them comes second although its timestamp is not greater than the first one's. (The
  database may return the two in either order; the same holds with the roles exchanged.)
\<close>

theorem messages_chronological_counterexample:
  "getMessages worldTie (Some ''+1111'') = Success [storedM1, storedM1b] \<and>
   timestamp storedM1b \<le> timestamp storedM1 \<and> storedM1b \<noteq> storedM1"
  by (simp add: getMessages_def findSortedAsc_def worldTie_def inConversation_def
      storedM1b_def storedM1_def)

text \<open>
  C8, as the code has it. When the text is absent, empty or only white space, or the
  conversation id is absent or empty, the request is answered with status 400 and the
  world stays as it was. For any other text and id the validation passes; then, if the
  generated message id is not yet stored, one record is appended, with
  \<open>isOutgoing = true\<close>, \<open>status = sent\<close>, \<open>contactName = You\<close>, the trimmed text
  and the conversation id as \<open>toNumber\<close>; if a record with the generated id exists, the
  answer is status 400 (duplicate key) and no record is stored.
\<close>

theorem send_message_contract:
  "((\<not> truthy txt \<or> trim (opt_or txt []) = [] \<or> \<not> truthy waId) \<longrightarrow>
      (\<exists>e. sendMessage env rnd w waId txt nm = (w, Failure 400 e))) \<and>
   (i \<noteq> [] \<and> trim t \<noteq> [] \<longrightarrow>
      validateMessageInput (Some t) (Some i) = Valid \<and>
      (''msg_'' @ decimal (clock w 0) @ ''_'' @ rnd \<notin> set (map messageId (docs w)) \<longrightarrow>
         (\<exists>m w'. sendMessage env rnd w (Some i) (Some t) nm = (w', Success m) \<and>
            docs w' = docs w @ [m] \<and> isOutgoing m \<and> status m = ''sent'' \<and>
            contactName m = ''You'' \<and> wa_id m = ''business'' \<and> toNumber m = i \<and>
            msgText m = trim t \<and>
            messageId m = ''msg_'' @ decimal (clock w 0) @ ''_'' @ rnd)) \<and>
      (''msg_'' @ decimal (clock w 0) @ ''_'' @ rnd \<in> set (map messageId (docs w)) \<longrightarrow>
         (\<exists>w'. sendMessage env rnd w (Some i) (Some t) nm =
                  (w', Failure 400 ''Message with this ID already exists'') \<and>
               docs w' = docs w)))"
proof (intro conjI impI)
  assume "\<not> truthy txt \<or> trim (opt_or txt []) = [] \<or> \<not> truthy waId"
  then show "\<exists>e. sendMessage env rnd w waId txt nm = (w, Failure 400 e)"
    by (rule sendMessage_invalid)
next
  assume a: "i \<noteq> [] \<and> trim t \<noteq> []"
  then have "t \<noteq> []" using trim_Nil by auto
  with a show "validateMessageInput (Some t) (Some i) = Valid"
    by (simp add: validateMessageInput_Valid truthy_def opt_or_def)
next
  assume a: "i \<noteq> [] \<and> trim t \<noteq> []"
    and fresh: "''msg_'' @ decimal (clock w 0) @ ''_'' @ rnd \<notin> set (map messageId (docs w))"
  from a have i: "i \<noteq> []" and t: "trim t \<noteq> []" by simp_all
  show "\<exists>m w'. sendMessage env rnd w (Some i) (Some t) nm = (w', Success m) \<and>
            docs w' = docs w @ [m] \<and> isOutgoing m \<and> status m = ''sent'' \<and>
            contactName m = ''You'' \<and> wa_id m = ''business'' \<and> toNumber m = i \<and>
            msgText m = trim t \<and>
            messageId m = ''msg_'' @ decimal (clock w 0) @ ''_'' @ rnd"
    unfolding sendMessage_valid[OF i t] using fresh by simp
next
  assume a: "i \<noteq> [] \<and> trim t \<noteq> []"
    and clash: "''msg_'' @ decimal (clock w 0) @ ''_'' @ rnd \<in> set (map messageId (docs w))"
  from a have i: "i \<noteq> []" and t: "trim t \<noteq> []" by simp_all
  show "\<exists>w'. sendMessage env rnd w (Some i) (Some t) nm =
                  (w', Failure 400 ''Message with this ID already exists'') \<and>
               docs w' = docs w"
    unfolding sendMessage_valid[OF i t] using clash by simp
qed

theorem send_message_contract_witness:
  "trim ''   '' = [] \<and>
   sendMessage None ''k3j9x0q2a'' worldM1 (Some ''+1111'') (Some ''   '') None =
     (worldM1, Failure 400 ''Message text is required'') \<and>
   ''+1111'' \<noteq> [] \<and> trim '' hello '' \<noteq> [] \<and>
   ''msg_'' @ decimal (clock worldM1 0) @ ''_'' @ ''k3j9x0q2a'' \<notin> set (map messageId (docs worldM1)) \<and>
   map (\<lambda>m. (messageId m, isOutgoing m, status m, contactName m, toNumber m, msgText m))
     (docs (fst (sendMessage None ''k3j9x0q2a'' worldM1 (Some ''+1111'') (Some '' hello '') None))) =
     [(''m1'', False, ''received'', ''Alice'', ''+9999'', ''hi''),
      (''msg_1700000000001_k3j9x0q2a'', True, ''sent'', ''You'', ''+1111'', ''hello'')] \<and>
   ''msg_'' @ decimal (clock worldClash 0) @ ''_'' @ ''k3j9x0q2a'' \<in> set (map messageId (docs worldClash)) \<and>
   docs (fst (sendMessage None ''k3j9x0q2a'' worldClash (Some ''+1111'') (Some ''hello'') None)) =
     docs worldClash"
proof -
  have h1: "\<not> truthy (Some ''   '') \<or> trim (opt_or (Some ''   '') []) = [] \<or> \<not> truthy (Some ''+1111'')"
    by (simp add: opt_or_def trim_hello)
  have h2: "''+1111'' \<noteq> [] \<and> trim '' hello '' \<noteq> []" "''+1111'' \<noteq> [] \<and> trim ''hello'' \<noteq> []"
    by (simp_all add: trim_hello)
  have h3: "''msg_'' @ decimal (clock worldM1 0) @ ''_'' @ ''k3j9x0q2a'' \<notin> set (map messageId (docs worldM1))"
    by (simp add: worldM1_def storedM1_def decimal_1700000000001)
  have h4: "''msg_'' @ decimal (clock worldClash 0) @ ''_'' @ ''k3j9x0q2a'' \<in> set (map messageId (docs worldClash))"
    by (simp add: worldClash_def decimal_1700000000000)
  from send_message_contract[of "Some ''   ''" "Some ''+1111''" None "''k3j9x0q2a''" worldM1 None] h1
  obtain e where e: "sendMessage None ''k3j9x0q2a'' worldM1 (Some ''+1111'') (Some ''   '') None =
      (worldM1, Failure 400 e)"
    by blast
  have "sendMessage None ''k3j9x0q2a'' worldM1 (Some ''+1111'') (Some ''   '') None =
      (worldM1, Failure 400 ''Message text is required'')"
    using e by (simp add: sendMessage_def validateMessageInput_def trim_hello opt_or_def truthy_def)
  moreover
  from send_message_contract[of _ _ None "''k3j9x0q2a''" worldM1 None "''+1111''" "'' hello ''"] h2(1) h3
  obtain m w' where m: "sendMessage None ''k3j9x0q2a'' worldM1 (Some ''+1111'') (Some '' hello '') None = (w', Success m)"
    "docs w' = docs worldM1 @ [m]" "isOutgoing m" "status m = ''sent''" "contactName m = ''You''"
    "toNumber m = ''+1111''" "msgText m = trim '' hello ''"
    "messageId m = ''msg_'' @ decimal (clock worldM1 0) @ ''_'' @ ''k3j9x0q2a''"
    by blast
  then have "map (\<lambda>m. (messageId m, isOutgoing m, status m, contactName m, toNumber m, msgText m))
     (docs (fst (sendMessage None ''k3j9x0q2a'' worldM1 (Some ''+1111'') (Some '' hello '') None))) =
     [(''m1'', False, ''received'', ''Alice'', ''+9999'', ''hi''),
      (''msg_1700000000001_k3j9x0q2a'', True, ''sent'', ''You'', ''+1111'', ''hello'')]"
    by (simp add: worldM1_def storedM1_def decimal_1700000000001 trim_hello)
  moreover
  from send_message_contract[of _ _ None "''k3j9x0q2a''" worldClash None "''+1111''" "''hello''"] h2(2) h4
  obtain w'' where "sendMessage None ''k3j9x0q2a'' worldClash (Some ''+1111'') (Some ''hello'') None =
                  (w'', Failure 400 ''Message with this ID already exists'')" "docs w'' = docs worldClash"
    by blast
  then have "docs (fst (sendMessage None ''k3j9x0q2a'' worldClash (Some ''+1111'') (Some ''hello'') None)) =
     docs worldClash" by simp
  ultimately show ?thesis using h2(1) h3 h4 by (simp add: trim_hello)
qed

text \<open>
  C8 as stated fails: with the text \<open>hello\<close> and the conversation id \<open>+1111\<close> the
  validation passes, but the generated id is the id of a stored record, the save is
  refused and nothing is persisted.
\<close>

theorem send_message_contract_counterexample:
  "validateMessageInput (Some ''hello'') (Some ''+1111'') = Valid \<and>
   snd (sendMessage None ''k3j9x0q2a'' worldClash (Some ''+1111'') (Some ''hello'') None) =
     Failure 400 ''Message with this ID already exists'' \<and>
   docs (fst (sendMessage None ''k3j9x0q2a'' worldClash (Some ''+1111'') (Some ''hello'') None)) =
     docs worldClash"
proof -
  have i: "''+1111'' \<noteq> []" and t: "trim ''hello'' \<noteq> []"
    by (simp_all add: trim_hello)
  have "''msg_'' @ decimal (clock worldClash 0) @ ''_'' @ ''k3j9x0q2a'' \<in> set (map messageId (docs worldClash))"
    by (simp add: worldClash_def decimal_1700000000000)
  then show ?thesis
    unfolding sendMessage_valid[OF i t]
    by (simp add: validateMessageInput_Valid truthy_def opt_or_def trim_hello)
qed

text \<open>
  C9. The object built for a business-sent webhook entry and the object built by
  \<open>createOutgoingMessage\<close> both have \<open>isOutgoing = true\<close> only together with
  \<open>wa_id = business\<close>. So a store in which every outgoing record has
  \<open>wa_id = business\<close> keeps that property through the ingestion of any document and
  through any send request. Such a record belongs to the conversation of an id other
  than \<open>business\<close> exactly when its \<open>toNumber\<close> is that id.
\<close>

theorem outgoing_sentinel:
  "(d_isOutgoing (createMessageFromWebhook message v bn) \<longrightarrow>
      d_wa_id (createMessageFromWebhook message v bn) = Some ''business'') \<and>
   d_isOutgoing (fst (createOutgoingMessage w rnd i t bp nm)) \<and>
   d_wa_id (fst (createOutgoingMessage w rnd i t bp nm)) = Some ''business'' \<and>
   ((\<forall>d\<in>set (docs w). isOutgoing d \<longrightarrow> wa_id d = ''business'') \<longrightarrow>
      (\<forall>d\<in>set (docs (processWebhookFile env w doc)). isOutgoing d \<longrightarrow> wa_id d = ''business'') \<and>
      (\<forall>d\<in>set (docs (fst (sendMessage env rnd w waId txt pn))).
          isOutgoing d \<longrightarrow> wa_id d = ''business'')) \<and>
   (wa_id x = ''business'' \<and> c \<noteq> ''business'' \<longrightarrow> inConversation c x = (toNumber x = c))"
proof (intro conjI impI)
  assume "d_isOutgoing (createMessageFromWebhook message v bn)"
  then show "d_wa_id (createMessageFromWebhook message v bn) = Some ''business''"
    by (rule createMessage_outgoing_sentinel)
next
  show "d_isOutgoing (fst (createOutgoingMessage w rnd i t bp nm))"
    by (simp add: createOutgoingMessage_eq)
next
  show "d_wa_id (fst (createOutgoingMessage w rnd i t bp nm)) = Some ''business''"
    by (simp add: createOutgoingMessage_eq)
next
  assume "\<forall>d\<in>set (docs w). isOutgoing d \<longrightarrow> wa_id d = ''business''"
  then show "\<forall>d\<in>set (docs (processWebhookFile env w doc)). isOutgoing d \<longrightarrow> wa_id d = ''business''"
    by (rule processWebhookFile_sentinel)
next
  assume "\<forall>d\<in>set (docs w). isOutgoing d \<longrightarrow> wa_id d = ''business''"
  then show "\<forall>d\<in>set (docs (fst (sendMessage env rnd w waId txt pn))).
          isOutgoing d \<longrightarrow> wa_id d = ''business''"
    by (rule sendMessage_sentinel)
next
  assume "wa_id x = ''business'' \<and> c \<noteq> ''business''"
  then show "inConversation c x = (toNumber x = c)"
    by (auto simp: inConversation_def)
qed

theorem outgoing_sentinel_witness:
  "d_isOutgoing (createMessageFromWebhook m2 (valueOf [m2]) (Some ''+9999'')) \<and>
   d_wa_id (createMessageFromWebhook m2 (valueOf [m2]) (Some ''+9999'')) = Some ''business'' \<and>
   map (\<lambda>d. (isOutgoing d, wa_id d))
     (docs (processWebhookFile None worldM1 (documentOf (valueOf [m2])))) =
     [(False, ''+1111''), (True, ''business'')] \<and>
   map (\<lambda>d. (isOutgoing d, wa_id d))
     (docs (fst (sendMessage None ''k3j9x0q2a'' worldM1 (Some ''+1111'') (Some ''hello'') None))) =
     [(False, ''+1111''), (True, ''business'')] \<and>
   wa_id replyToAlice = ''business'' \<and> ''+1111'' \<noteq> ''business'' \<and>
   inConversation ''+1111'' replyToAlice"
proof -
  have h1: "d_isOutgoing (createMessageFromWebhook m2 (valueOf [m2]) (Some ''+9999''))"
    by (simp add: createMessageFromWebhook_def m2_def truthy_def)
  have h2: "\<forall>d\<in>set (docs worldM1). isOutgoing d \<longrightarrow> wa_id d = ''business''"
    by (simp add: worldM1_def storedM1_def)
  have h3: "wa_id replyToAlice = ''business'' \<and> ''+1111'' \<noteq> ''business''"
    by (simp add: replyToAlice_def)
  note T = outgoing_sentinel[of m2 "valueOf [m2]" "Some ''+9999''" worldM1 "''k3j9x0q2a''"
      "''+1111''" "''hello''" "''+9999''" "''Alice''" None "documentOf (valueOf [m2])"
      "Some ''+1111''" "Some ''hello''" None replyToAlice "''+1111''"]
  from T h1 have r1: "d_wa_id (createMessageFromWebhook m2 (valueOf [m2]) (Some ''+9999'')) = Some ''business''"
    by blast
  from T h3 have "inConversation ''+1111'' replyToAlice = (toNumber replyToAlice = ''+1111'')"
    by blast
  then have r2: "inConversation ''+1111'' replyToAlice" by (simp add: replyToAlice_def)
  from T h2 have r3:
    "\<forall>d\<in>set (docs (processWebhookFile None worldM1 (documentOf (valueOf [m2])))).
        isOutgoing d \<longrightarrow> wa_id d = ''business''"
    "\<forall>d\<in>set (docs (fst (sendMessage None ''k3j9x0q2a'' worldM1 (Some ''+1111'') (Some ''hello'') None))).
          isOutgoing d \<longrightarrow> wa_id d = ''business''"
    by blast+
  have e1: "map isOutgoing (docs (processWebhookFile None worldM1 (documentOf (valueOf [m2])))) = [False, True]"
    "map wa_id (docs (processWebhookFile None worldM1 (documentOf (valueOf [m2])))) ! 0 = ''+1111''"
    by (simp_all add: scenario_defs m2_def parseInt_1000 worldM1_def storedM1_def)
  have i: "''+1111'' \<noteq> []" and t: "trim ''hello'' \<noteq> []"
    by (simp_all add: trim_hello)
  have e2: "map isOutgoing (docs (fst (sendMessage None ''k3j9x0q2a'' worldM1 (Some ''+1111'') (Some ''hello'') None))) = [False, True]"
    "map wa_id (docs (fst (sendMessage None ''k3j9x0q2a'' worldM1 (Some ''+1111'') (Some ''hello'') None))) ! 0 = ''+1111''"
    unfolding sendMessage_valid[OF i t]
    by (simp_all add: worldM1_def storedM1_def decimal_1700000000001)
  from e1 r3(1) have "map (\<lambda>d. (isOutgoing d, wa_id d))
     (docs (processWebhookFile None worldM1 (documentOf (valueOf [m2])))) =
     [(False, ''+1111''), (True, ''business'')]"
    by (auto simp: map_eq_Cons_conv)
  moreover from e2 r3(2) have "map (\<lambda>d. (isOutgoing d, wa_id d))
     (docs (fst (sendMessage None ''k3j9x0q2a'' worldM1 (Some ''+1111'') (Some ''hello'') None))) =
     [(False, ''+1111''), (True, ''business'')]"
    by (auto simp: map_eq_Cons_conv)
  ultimately show ?thesis using h1 r1 r2 h3 by simp
qed

end
